theory Spec2Isabelle
  imports Main "HOL-Library.Sublist"
begin

section \<open>JavaScript values\<close>

text \<open>
  The runtime handles untyped JavaScript values: parsed JSON events, whatever the handler
  returns, whatever it throws. Numbers are integers here (epoch milliseconds and
  durations are integral). \<open>JError name message stack\<close> is an instance of \<open>Error\<close>;
  \<open>JObj\<close> is a plain object given by its own properties; \<open>JFunction\<close> is a callable,
  identified by a number.
\<close>

datatype jsval =
    JUndefined
  | JNull
  | JBool bool
  | JNum int
  | JStr string
  | JArr "jsval list"
  | JObj "(string \<times> jsval) list"
  | JError string string "string option"
  | JFunction nat

text \<open>The operator \<open>typeof\<close>.\<close>

fun typeof :: "jsval \<Rightarrow> string" where
  "typeof JUndefined = ''undefined''"
| "typeof JNull = ''object''"
| "typeof (JBool b) = ''boolean''"
| "typeof (JNum n) = ''number''"
| "typeof (JStr s) = ''string''"
| "typeof (JArr xs) = ''object''"
| "typeof (JObj ps) = ''object''"
| "typeof (JError n m st) = ''object''"
| "typeof (JFunction f) = ''function''"

text \<open>\<open>v instanceof Error\<close>.\<close>

fun instanceof_Error :: "jsval \<Rightarrow> bool" where
  "instanceof_Error (JError n m st) = True"
| "instanceof_Error v = False"

text \<open>Decimal rendering of an integer, as a template literal renders a number.\<close>

fun str_nat :: "nat \<Rightarrow> string" where
  "str_nat n =
     (if n < 10 then [''0123456789'' ! n]
      else str_nat (n div 10) @ [''0123456789'' ! (n mod 10)])"

declare str_nat.simps [simp del]

definition num_str :: "int \<Rightarrow> string" where
  "num_str i = (if i < 0 then CHR ''-'' # str_nat (nat (- i)) else str_nat (nat i))"

text \<open>
  \<open>k in v\<close> for a value with \<open>typeof v = "object"\<close> and \<open>v \<noteq> null\<close>, on own
  properties: the keys of a plain object, the indices and \<open>length\<close> of an array. The
  keys the runtime asks for, \<open>type\<close> and \<open>cause\<close>, are not on the built-in prototypes.
\<close>

fun in_op :: "string \<Rightarrow> jsval \<Rightarrow> bool" where
  "in_op k (JObj ps) = (k \<in> set (map fst ps))"
| "in_op k (JArr xs) = (k = ''length'' \<or> k \<in> set (map str_nat [0..<length xs]))"
| "in_op k (JError n m st) = (k = ''message'' \<or> k = ''name'' \<or> (k = ''stack'' \<and> st \<noteq> None))"
| "in_op k v = False"

text \<open>
  Property read \<open>v.k\<close> on a value that is not \<open>null\<close> or \<open>undefined\<close> (where JavaScript
  raises a TypeError; the runtime reads properties only of values that passed
  \<open>isSerializableError\<close> or of object literals it built itself).
\<close>

fun get_prop :: "jsval \<Rightarrow> string \<Rightarrow> jsval" where
  "get_prop (JObj ps) k = (case map_of ps k of Some v \<Rightarrow> v | None \<Rightarrow> JUndefined)"
| "get_prop v k = JUndefined"

text \<open>\<open>a ?? b\<close>: the right operand when the left one is \<open>null\<close> or \<open>undefined\<close>.\<close>

fun nullish :: "jsval \<Rightarrow> jsval \<Rightarrow> jsval" where
  "nullish JUndefined b = b"
| "nullish JNull b = b"
| "nullish a b = a"

text \<open>\<open>s.split("\n")\<close>: the pieces between separators; never the empty array.\<close>

fun split_on :: "char \<Rightarrow> string \<Rightarrow> string list" where
  "split_on c [] = [[]]"
| "split_on c (x # xs) =
     (if x = c then [] # split_on c xs
      else (case split_on c xs of [] \<Rightarrow> [[x]] | l # ls \<Rightarrow> (x # l) # ls))"

definition newline :: char where
  "newline = CHR 0x0A"

text \<open>\<open>s.lastIndexOf(".")\<close>: the index of the last occurrence, or \<open>-1\<close>.\<close>

fun lastIndexOf :: "string \<Rightarrow> char \<Rightarrow> int" where
  "lastIndexOf [] c = -1"
| "lastIndexOf (x # xs) c =
     (let r = lastIndexOf xs c in
      if r \<noteq> -1 then r + 1 else if x = c then 0 else -1)"

text \<open>
  \<open>s.substring(start, end)\<close>: both indices are clamped to \<open>0..length\<close> and swapped when
  out of order; \<open>s.substring(start)\<close> runs to the end.
\<close>

definition substring :: "string \<Rightarrow> int \<Rightarrow> int \<Rightarrow> string" where
  "substring s start end' =
     (let n = int (length s);
          a = max 0 (min n start);
          b = max 0 (min n end');
          lo = min a b;
          hi = max a b
      in take (nat (hi - lo)) (drop (nat lo) s))"

definition substring_from :: "string \<Rightarrow> int \<Rightarrow> string" where
  "substring_from s start = substring s start (int (length s))"

subsection \<open>Functions of the platform\<close>

text \<open>
  The runtime calls functions of Bun and of the JavaScript library that are not part of
  this repository. They are parameters of the model:
  \<open>inspect\<close> is \<open>Bun.inspect\<close>; \<open>stringify\<close> is \<open>JSON.stringify\<close> (\<open>None\<close> where it
  returns \<open>undefined\<close>); \<open>json_parse\<close> is \<open>Response.json\<close> on the body text (\<open>Inl\<close> the
  thrown cause); \<open>parseInt\<close> is \<open>parseInt\<close> (\<open>None\<close> for \<open>NaN\<close>); \<open>url_href u base\<close> is
  \<open>new URL(u, base).href\<close>; \<open>to_string\<close> is the conversion a template literal applies.
\<close>

record builtins =
  inspect :: "jsval \<Rightarrow> string"
  stringify :: "jsval \<Rightarrow> string option"
  json_parse :: "string \<Rightarrow> jsval + jsval"
  parseInt :: "string \<Rightarrow> int option"
  url_href :: "string \<Rightarrow> string \<Rightarrow> string"
  to_string :: "jsval \<Rightarrow> string"

section \<open>The process and its effects\<close>

text \<open>
  The runtime is a single thread of control that awaits one thing at a time, so it is
  modelled by explicit state passing. What the outside does is an argument of the
  model: the answer of the host to each request (or no answer), the outcome of the race
  between the handler and the timer, the readings of the clock. A request is assumed
  to be answered or to stay pending once it has been sent; a connection that fails,
  which would reject the promise of \<open>fetch\<close>, is outside the model. Header lookup is the function
  \<open>headers.get\<close> of the response itself.
\<close>

record RequestInit =
  http_method :: string
  body :: "string option"
  headers :: "(string \<times> jsval) list"

record Response =
  status :: nat
  headers_get :: "string \<Rightarrow> string option"
  text_body :: string

text \<open>\<open>response.ok\<close>: the status is in the range 200 to 299.\<close>

definition ok :: "Response \<Rightarrow> bool" where
  "ok r = (200 \<le> status r \<and> status r \<le> 299)"

text \<open>
  What the process does to the outside: an HTTP request to an absolute address, a call
  of the handler capability on an event, a line on the error console.
\<close>

datatype effect =
    Fetch string "RequestInit option"
  | Invoke jsval jsval
  | ConsoleError "jsval list"

text \<open>
  The state of the process: its environment variables, and the effects so far, each one
  recorded with the value the trace-correlation variable had when it happened (the
  handler and any instrumentation read that variable from the environment).
\<close>

record proc =
  process_env :: "string \<Rightarrow> string option"
  effects :: "(string option \<times> effect) list"

definition trace_var :: string where
  "trace_var = ''_X_AMZN_TRACE_ID''"

definition emit :: "effect \<Rightarrow> proc \<Rightarrow> proc" where
  "emit e p = p\<lparr>effects := effects p @ [(process_env p trace_var, e)]\<rparr>"

text \<open>
  An asynchronous operation of the runtime ends in one of three ways: the process has
  exited with a status code, the operation threw a value that nothing catches (its
  promise is rejected and the process ends on the uncaught exception), the operation
  waits for an answer of the host that does not come, or it returns a value.
\<close>

datatype 'a result =
    Exited int proc
  | Uncaught proc
  | Pending proc
  | Return 'a proc

text \<open>
  \<^verbatim>\<open>function exit(...cause) { console.error(...cause); process.exit(1); }\<close>
\<close>

definition exit :: "jsval list \<Rightarrow> proc \<Rightarrow> 'a result" where
  "exit cause p = Exited 1 (emit (ConsoleError cause) p)"

text \<open>
  \<^verbatim>\<open>function env(name, fallback?) {
     const value = process.env[name] ?? fallback ?? null;
     if (value === null) exit(`Runtime failed to find the '${name}' environment variable`);
     return value; }\<close>
\<close>

definition env :: "string \<Rightarrow> string option \<Rightarrow> proc \<Rightarrow> string result" where
  "env name fallback p =
     (case (case process_env p name of Some v \<Rightarrow> Some v | None \<Rightarrow> fallback) of
        None \<Rightarrow>
          exit [JStr (''Runtime failed to find the '' @ [CHR 0x27] @ name @ [CHR 0x27]
                      @ '' environment variable'')] p
      | Some value \<Rightarrow> Return value p)"

text \<open>Sequencing: the second operation runs only when the first one returned.\<close>

definition and_then :: "'a result \<Rightarrow> ('a \<Rightarrow> proc \<Rightarrow> 'b result) \<Rightarrow> 'b result" where
  "and_then r f =
     (case r of
        Exited c q \<Rightarrow> Exited c q
      | Uncaught q \<Rightarrow> Uncaught q
      | Pending q \<Rightarrow> Pending q
      | Return x q \<Rightarrow> f x q)"

text \<open>The process has ended: by \<open>process.exit\<close> or on an uncaught exception.\<close>

fun ended :: "'a result \<Rightarrow> bool" where
  "ended (Exited c q) = True"
| "ended (Uncaught q) = True"
| "ended (Pending q) = False"
| "ended (Return x q) = False"

section \<open>Runtime API client\<close>

text \<open>
  \<^verbatim>\<open>async function lambdaFetch(url, options?) {
     const { href } = new URL(url, runtimeUrl);
     const response = await fetch(href, options);
     if (!response.ok) exit(`Runtime failed to send request to Lambda [status: ${response.status}]`);
     return response; }\<close>
  The answer of the host is an argument; \<open>None\<close> is a request the host never answers.

  \<open>fetch\<close> checks the headers it is given before it sends anything, and throws a
  TypeError when a value is not a legal header value. A value that is not a string is
  converted to one first. A value is taken as legal here when it contains no NUL, no
  line feed and no carriage return (\<open>fetch\<close> trims whitespace at both ends before it
  checks, so a value that is legal here is legal there). Strings are sequences of 8-bit
  characters here, so a text with a character beyond U+00FF, which \<open>fetch\<close> refuses in
  a header as well, is not a value of the model. Nothing in the runtime catches that
  TypeError.
\<close>

definition header_value_ok :: "builtins \<Rightarrow> jsval \<Rightarrow> bool" where
  "header_value_ok B v =
     (let s = (case v of JStr s \<Rightarrow> s | _ \<Rightarrow> to_string B v)
      in CHR 0x00 \<notin> set s \<and> CHR 0x0A \<notin> set s \<and> CHR 0x0D \<notin> set s)"

definition fetch_accepts :: "builtins \<Rightarrow> RequestInit option \<Rightarrow> bool" where
  "fetch_accepts B options =
     (case options of
        None \<Rightarrow> True
      | Some opts \<Rightarrow> list_all (\<lambda>h. header_value_ok B (snd h)) (headers opts))"

definition lambdaFetch ::
  "builtins \<Rightarrow> string \<Rightarrow> string \<Rightarrow> RequestInit option \<Rightarrow> Response option \<Rightarrow> proc
     \<Rightarrow> Response result" where
  "lambdaFetch B runtimeUrl url options answer p =
     (let href = url_href B url runtimeUrl
      in if \<not> fetch_accepts B options then Uncaught p
         else
           (let p' = emit (Fetch href options) p
            in case answer of
                 None \<Rightarrow> Pending p'
               | Some response \<Rightarrow>
                   if \<not> ok response
                   then exit [JStr (''Runtime failed to send request to Lambda [status: ''
                                    @ str_nat (status response) @ '']'')] p'
                   else Return response p'))"

record LambdaError =
  errorType :: jsval
  errorMessage :: string
  stackTrace :: "string list option"

text \<open>The object that \<open>JSON.stringify\<close> receives for a \<open>LambdaError\<close>.\<close>

definition LambdaError_json :: "LambdaError \<Rightarrow> jsval" where
  "LambdaError_json e =
     JObj ([(''errorType'', errorType e), (''errorMessage'', JStr (errorMessage e))]
           @ (case stackTrace e of
                None \<Rightarrow> []
              | Some ls \<Rightarrow> [(''stackTrace'', JArr (map JStr ls))]))"

text \<open>
  \<^verbatim>\<open>function isSerializableError(error) {
     return error instanceof Error ||
       (typeof error === "object" && error !== null && "type" in error && "cause" in error); }\<close>
\<close>

definition isSerializableError :: "jsval \<Rightarrow> bool" where
  "isSerializableError error =
     (instanceof_Error error \<or>
      (typeof error = ''object'' \<and> error \<noteq> JNull \<and> in_op ''type'' error \<and> in_op ''cause'' error))"

text \<open>
  \<^verbatim>\<open>function formatError(error) {
     if (error instanceof Error)
       return { errorType: error.name, errorMessage: error.message,
                stackTrace: error.stack?.split("\n") };
     return { errorType: error.type, errorMessage: Bun.inspect(error.cause) }; }\<close>
\<close>

fun formatError :: "builtins \<Rightarrow> jsval \<Rightarrow> LambdaError" where
  "formatError B (JError n m st) =
     \<lparr>errorType = JStr n, errorMessage = m, stackTrace = map_option (split_on newline) st\<rparr>"
| "formatError B error =
     \<lparr>errorType = get_prop error ''type'',
      errorMessage = inspect B (get_prop error ''cause''),
      stackTrace = None\<rparr>"

definition fetchNextInvocation ::
  "builtins \<Rightarrow> string \<Rightarrow> Response option \<Rightarrow> proc \<Rightarrow> Response result" where
  "fetchNextInvocation B runtimeUrl answer p =
     lambdaFetch B runtimeUrl ''invocation/next'' None answer p"

definition sendInvocationResponse ::
  "builtins \<Rightarrow> string \<Rightarrow> string \<Rightarrow> string option \<Rightarrow> Response option \<Rightarrow> proc
     \<Rightarrow> Response result" where
  "sendInvocationResponse B runtimeUrl requestId body' answer p =
     lambdaFetch B runtimeUrl (''invocation/'' @ requestId @ ''/response'')
       (Some \<lparr>http_method = ''POST'', body = body',
              headers = [(''Content-Type'', JStr ''application/json'')]\<rparr>)
       answer p"

definition sendBaseError ::
  "builtins \<Rightarrow> string \<Rightarrow> string \<Rightarrow> jsval \<Rightarrow> Response option \<Rightarrow> proc \<Rightarrow> Response result" where
  "sendBaseError B runtimeUrl url error answer p =
     (let formatted = formatError B error
      in lambdaFetch B runtimeUrl url
           (Some \<lparr>http_method = ''POST'',
                  body = stringify B (LambdaError_json formatted),
                  headers = [(''Lambda-Runtime-Function-Error-Type'', errorType formatted),
                             (''Content-Type'', JStr ''application/vnd.aws.lambda.error+json'')]\<rparr>)
           answer p)"

definition sendInitError ::
  "builtins \<Rightarrow> string \<Rightarrow> jsval \<Rightarrow> Response option \<Rightarrow> proc \<Rightarrow> Response result" where
  "sendInitError B runtimeUrl error answer p =
     sendBaseError B runtimeUrl ''init/error'' error answer p"

definition sendInvocationError ::
  "builtins \<Rightarrow> string \<Rightarrow> string \<Rightarrow> jsval \<Rightarrow> Response option \<Rightarrow> proc \<Rightarrow> Response result" where
  "sendInvocationError B runtimeUrl requestId error answer p =
     sendBaseError B runtimeUrl (''invocation/'' @ requestId @ ''/error'') error answer p"

text \<open>
  \<^verbatim>\<open>async function throwError(error, requestId?) {
     console.error(error);
     await (requestId !== undefined ? sendInvocationError(requestId, error)
                                    : sendInitError(error));
     exit(); }\<close>
\<close>

definition throwError ::
  "builtins \<Rightarrow> string \<Rightarrow> jsval \<Rightarrow> string option \<Rightarrow> Response option \<Rightarrow> proc \<Rightarrow> 'a result" where
  "throwError B runtimeUrl error requestId answer p =
     and_then
       (case requestId of
          Some rid \<Rightarrow> sendInvocationError B runtimeUrl rid error answer (emit (ConsoleError [error]) p)
        | None \<Rightarrow> sendInitError B runtimeUrl error answer (emit (ConsoleError [error]) p))
       (\<lambda>_ p'. exit [] p')"

section \<open>Handler loader\<close>

text \<open>
  What the cold start meets: the outcome of \<open>import(filePath)\<close> for each path (the
  exports of the module, or the value the import throws), and the answer of the host to
  an init-error report.
\<close>

datatype import_result =
    Loaded "string \<Rightarrow> jsval option"
  | ImportThrows jsval

record startup =
  import_module :: "string \<Rightarrow> import_result"
  init_error_answer :: "Response option"

text \<open>\<open>file[k]\<close> on a module namespace: \<open>undefined\<close> when there is no such export.\<close>

definition export_of :: "(string \<Rightarrow> jsval option) \<Rightarrow> string \<Rightarrow> jsval" where
  "export_of file k = (case file k of Some v \<Rightarrow> v | None \<Rightarrow> JUndefined)"

fun message_of :: "jsval \<Rightarrow> string" where
  "message_of (JError n m st) = m"
| "message_of v = []"

definition quote :: "string \<Rightarrow> string" where
  "quote s = [CHR 0x27] @ s @ [CHR 0x27]"

definition init :: "builtins \<Rightarrow> startup \<Rightarrow> string \<Rightarrow> proc \<Rightarrow> jsval result" where
  "init B W runtimeUrl p =
     and_then (env ''_HANDLER'' None p) (\<lambda>handlerName p1.
       let index = lastIndexOf handlerName CHR ''.'';
           fileName = substring handlerName 0 index
       in and_then (env ''LAMBDA_TASK_ROOT'' None p1) (\<lambda>taskRoot p2.
            let filePath = taskRoot @ ''/'' @ fileName
            in case import_module W filePath of
                 ImportThrows cause \<Rightarrow>
                   if instanceof_Error cause \<and> prefix ''Cannot find module'' (message_of cause)
                   then throwError B runtimeUrl
                          (JObj [(''type'', JStr ''FileDoesNotExist''),
                                 (''cause'', JStr (''Did not find a file named '' @ quote fileName))])
                          None (init_error_answer W) p2
                   else throwError B runtimeUrl
                          (JObj [(''type'', JStr ''InitError''), (''cause'', cause)])
                          None (init_error_answer W) p2
               | Loaded file \<Rightarrow>
                   let moduleName = substring_from handlerName (index + 1);
                       handler = nullish (export_of file ''default'') (export_of file moduleName)
                   in if typeof handler \<noteq> ''function''
                      then throwError B runtimeUrl
                             (JObj [(''type'',
                                     JStr (if handler = JUndefined then ''MethodDoesNotExist''
                                           else ''MethodIsNotAFunction'')),
                                    (''cause'',
                                     JStr (fileName @ '' does not an function export ''
                                           @ quote moduleName @ '' (handler is ''
                                           @ to_string B handler @ '')''))])
                             None (init_error_answer W) p2
                      else Return handler p2))"

section \<open>Invocation loop\<close>

record LambdaRequest =
  requestId :: string
  traceId :: string
  deadlineMs :: "int option"
  event :: jsval

text \<open>
  \<^verbatim>\<open>function setTraceId(traceId) { process.env["_X_AMZN_TRACE_ID"] = traceId; }
function resetTraceId() { delete process.env["_X_AMZN_TRACE_ID"]; }\<close>
\<close>

definition setTraceId :: "string \<Rightarrow> proc \<Rightarrow> proc" where
  "setTraceId t p = p\<lparr>process_env := (process_env p)(trace_var \<mapsto> t)\<rparr>"

definition resetTraceId :: "proc \<Rightarrow> proc" where
  "resetTraceId p = p\<lparr>process_env := (process_env p)(trace_var := None)\<rparr>"

text \<open>
  \<^verbatim>\<open>parseInt(response.headers.get("Lambda-Runtime-Deadline-Ms") ?? "0") || null\<close>:
  \<open>NaN\<close> and \<open>0\<close> are falsy and become \<open>null\<close>.
\<close>

definition parse_deadline :: "builtins \<Rightarrow> string option \<Rightarrow> int option" where
  "parse_deadline B h =
     (case parseInt B (case h of None \<Rightarrow> ''0'' | Some s \<Rightarrow> s) of
        None \<Rightarrow> None
      | Some n \<Rightarrow> if n = 0 then None else Some n)"

text \<open>
  \<^verbatim>\<open>async function receiveRequest() {
     const response = await fetchNextInvocation();
     const requestId = response.headers.get("Lambda-Runtime-Aws-Request-Id") ?? undefined;
     if (requestId === undefined) exit("Runtime received a request without a request ID");
     const traceId = response.headers.get("Lambda-Runtime-Trace-Id") ?? undefined;
     if (traceId === undefined) exit("Runtime received a request without a trace ID");
     const deadlineMs = parseInt(...) || null;
     let event;
     try { event = await response.json(); }
     catch (cause) { exit("Runtime received a request with invalid JSON", cause); }
     return { requestId, traceId, deadlineMs, event }; }\<close>
\<close>

definition receiveRequest ::
  "builtins \<Rightarrow> string \<Rightarrow> Response option \<Rightarrow> proc \<Rightarrow> LambdaRequest result" where
  "receiveRequest B runtimeUrl answer p =
     and_then (fetchNextInvocation B runtimeUrl answer p) (\<lambda>response p1.
       case headers_get response ''Lambda-Runtime-Aws-Request-Id'' of
         None \<Rightarrow> exit [JStr ''Runtime received a request without a request ID''] p1
       | Some rid \<Rightarrow>
           (case headers_get response ''Lambda-Runtime-Trace-Id'' of
              None \<Rightarrow> exit [JStr ''Runtime received a request without a trace ID''] p1
            | Some tid \<Rightarrow>
                (case json_parse B (text_body response) of
                   Inl cause \<Rightarrow>
                     exit [JStr ''Runtime received a request with invalid JSON'', cause] p1
                 | Inr ev \<Rightarrow>
                     Return \<lparr>requestId = rid, traceId = tid,
                             deadlineMs =
                               parse_deadline B
                                 (headers_get response ''Lambda-Runtime-Deadline-Ms''),
                             event = ev\<rparr> p1)))"

text \<open>
  \<^verbatim>\<open>const durationMs = Math.max(1,
     (deadlineMs === null ? Date.now() + 60_000 : deadlineMs) - Date.now());\<close>
  The clock is read by each \<open>Date.now()\<close> that is evaluated: \<open>now_default\<close> is the
  reading inside the default deadline (taken only when there is no deadline), \<open>now_start\<close>
  the reading that is subtracted, taken after it.
\<close>

definition durationMs :: "int option \<Rightarrow> int \<Rightarrow> int \<Rightarrow> int" where
  "durationMs deadline now_default now_start =
     max 1 ((case deadline of None \<Rightarrow> now_default + 60000 | Some d \<Rightarrow> d) - now_start)"

text \<open>
  The outcome of \<open>Promise.race\<close> between the handler's promise and the timer: the handler
  resolved first with a value, rejected first with a cause (also when the call itself
  throws), or the timer fired first.
\<close>

datatype race_outcome =
    HandlerResolved jsval
  | HandlerRejected jsval
  | TimerFirst

text \<open>
  What one turn of the loop meets: the host's answer to the poll, the clock readings,
  how the race goes for a given event and timer duration, and the host's answer to the
  report of this invocation.
\<close>

record invocation =
  next_answer :: Response
  now_default :: int
  now_start :: int
  race :: "jsval \<Rightarrow> int \<Rightarrow> race_outcome"
  report_answer :: "Response option"

text \<open>
  The catch block:
  \<^verbatim>\<open>let se = cause;
if (!isSerializableError(se)) se = { type: "UnknownError", cause };\<close>
\<close>

definition caught :: "jsval \<Rightarrow> jsval" where
  "caught cause =
     (if \<not> isSerializableError cause
      then JObj [(''type'', JStr ''UnknownError''), (''cause'', cause)]
      else cause)"

text \<open>
  The body sent on success:
  \<^verbatim>\<open>data === null ? null : typeof data === "string" ? data : JSON.stringify(data)\<close>
\<close>

fun response_body :: "builtins \<Rightarrow> jsval \<Rightarrow> string option" where
  "response_body B JNull = None"
| "response_body B (JStr s) = Some s"
| "response_body B data = stringify B data"

text \<open>
  The \<open>finally\<close> block after the \<open>catch\<close> block: it runs when the \<open>catch\<close> block has
  completed or has thrown, not when the process exits inside it, nor while it awaits.
\<close>

definition finally_reset :: "'a result \<Rightarrow> unit result" where
  "finally_reset r =
     (case r of
        Exited c q \<Rightarrow> Exited c q
      | Uncaught q \<Rightarrow> Uncaught (resetTraceId q)
      | Pending q \<Rightarrow> Pending q
      | Return x q \<Rightarrow> Return () (resetTraceId q))"

text \<open>
  One turn of \<open>while (true)\<close>. The \<open>finally\<close> block runs when the \<open>try\<close> block is left:
  after the race on success and on timeout, so before the report is sent; after the
  \<open>catch\<close> block on a rejection, so after the error report has returned or has
  thrown. An \<open>exit\<close> inside the \<open>catch\<close> block ends the process at once, and while the
  report is awaited the \<open>finally\<close> block has not run.
\<close>

definition iteration ::
  "builtins \<Rightarrow> string \<Rightarrow> jsval \<Rightarrow> invocation \<Rightarrow> proc \<Rightarrow> unit result" where
  "iteration B runtimeUrl lambda iv p =
     and_then (receiveRequest B runtimeUrl (Some (next_answer iv)) p) (\<lambda>req p1.
       let d = durationMs (deadlineMs req) (now_default iv) (now_start iv);
           p2 = emit (Invoke lambda (event req)) (setTraceId (traceId req) p1)
       in case race iv (event req) d of
            HandlerRejected cause \<Rightarrow>
              finally_reset
                (sendInvocationError B runtimeUrl (requestId req) (caught cause)
                   (report_answer iv) p2)
          | TimerFirst \<Rightarrow>
              and_then
                (sendInvocationError B runtimeUrl (requestId req)
                   (JObj [(''type'', JStr ''TimeoutError''),
                          (''cause'', JStr (''Function timed out after '' @ num_str d @ ''ms''))])
                   (report_answer iv) (resetTraceId p2))
                (\<lambda>_ p3. Return () p3)
          | HandlerResolved data \<Rightarrow>
              and_then
                (sendInvocationResponse B runtimeUrl (requestId req) (response_body B data)
                   (report_answer iv) (resetTraceId p2))
                (\<lambda>_ p3. Return () p3))"

text \<open>
  The loop over the invocations the host delivers. When the host has no more work the
  poll stays unanswered: the process is suspended in \<open>fetchNextInvocation\<close>.
\<close>

fun serve :: "builtins \<Rightarrow> string \<Rightarrow> jsval \<Rightarrow> invocation list \<Rightarrow> proc \<Rightarrow> unit result" where
  "serve B runtimeUrl lambda [] p =
     (case fetchNextInvocation B runtimeUrl None p of
        Exited c q \<Rightarrow> Exited c q
      | Uncaught q \<Rightarrow> Uncaught q
      | Pending q \<Rightarrow> Pending q
      | Return r q \<Rightarrow> Return () q)"
| "serve B runtimeUrl lambda (iv # rest) p =
     (case iteration B runtimeUrl lambda iv p of
        Exited c q \<Rightarrow> Exited c q
      | Uncaught q \<Rightarrow> Uncaught q
      | Pending q \<Rightarrow> Pending q
      | Return u q \<Rightarrow> serve B runtimeUrl lambda rest q)"

text \<open>
  The program: the base address is built from the environment, the handler is loaded,
  the loop runs.
  \<^verbatim>\<open>const runtimeUrl = new URL(`http://${env("AWS_LAMBDA_RUNTIME_API")}/2018-06-01/runtime/`);
const lambda = await init();
while (true) { ... }\<close>
\<close>

definition main :: "builtins \<Rightarrow> startup \<Rightarrow> invocation list \<Rightarrow> proc \<Rightarrow> unit result" where
  "main B W invs p =
     and_then (env ''AWS_LAMBDA_RUNTIME_API'' None p) (\<lambda>api p1.
       let runtimeUrl = ''http://'' @ api @ ''/2018-06-01/runtime/''
       in and_then (init B W runtimeUrl p1) (\<lambda>lambda p2.
            serve B runtimeUrl lambda invs p2))"

text \<open>The state of the process at the end of an operation, however it ended.\<close>

fun proc_of :: "'a result \<Rightarrow> proc" where
  "proc_of (Exited c q) = q"
| "proc_of (Uncaught q) = q"
| "proc_of (Pending q) = q"
| "proc_of (Return x q) = q"

text \<open>
  What \<open>lambdaFetch\<close> adds to the effects after the request itself: nothing, or the
  console line written before exiting when the answer is not a success. The first
  argument is the value of the trace-correlation variable at that moment.
\<close>

definition fetch_failure :: "string option \<Rightarrow> Response option \<Rightarrow> (string option \<times> effect) list" where
  "fetch_failure t ans =
     (case ans of
        None \<Rightarrow> []
      | Some r \<Rightarrow>
          if ok r then []
          else [(t, ConsoleError [JStr (''Runtime failed to send request to Lambda [status: ''
                                        @ str_nat (status r) @ '']'')])])"

text \<open>
  The discipline of the trace-correlation variable, read off one recorded effect: a poll
  (the only request without options) happens with the variable absent, a call of the
  handler happens with the variable set.
\<close>

fun trace_ok :: "string option \<times> effect \<Rightarrow> bool" where
  "trace_ok (t, Fetch u None) = (t = None)"
| "trace_ok (t, Fetch u (Some opts)) = True"
| "trace_ok (t, Invoke h ev) = (t \<noteq> None)"
| "trace_ok (t, ConsoleError c) = True"

text \<open>
  What \<open>throwError\<close> adds to the effects after its report: the console line of
  \<open>exit()\<close> once the report has been answered with a success, that of \<open>lambdaFetch\<close>
  when the answer is not a success, nothing while the report is unanswered.
\<close>

definition exit_line :: "string option \<Rightarrow> Response option \<Rightarrow> (string option \<times> effect) list" where
  "exit_line t ans =
     (case ans of
        None \<Rightarrow> []
      | Some r \<Rightarrow> if ok r then [(t, ConsoleError [])] else fetch_failure t ans)"

section \<open>Concrete inputs\<close>

text \<open>
  Small instances of the platform functions, of the host's answers and of the process,
  on which the model is run: strings are rendered between double quotes, an address is
  resolved by appending it to the base.
\<close>

definition sample_builtins :: builtins where
  "sample_builtins =
     \<lparr>inspect = (\<lambda>v. case v of JStr s \<Rightarrow> [CHR 0x22] @ s @ [CHR 0x22] | _ \<Rightarrow> ''[value]''),
      stringify = (\<lambda>v. case v of JUndefined \<Rightarrow> None | JNull \<Rightarrow> Some ''null''
                         | JStr s \<Rightarrow> Some ([CHR 0x22] @ s @ [CHR 0x22]) | _ \<Rightarrow> Some ''{}''),
      json_parse = (\<lambda>s. if s = ''null'' then Inr JNull else if s = ''{}'' then Inr (JObj [])
                         else Inl (JError ''SyntaxError'' ''JSON Parse error'' None)),
      parseInt = (\<lambda>s. if s = ''0'' then Some 0 else if s = ''5000'' then Some 5000 else None),
      url_href = (\<lambda>u base. base @ u),
      to_string = (\<lambda>v. case v of JUndefined \<Rightarrow> ''undefined'' | JNull \<Rightarrow> ''null''
                         | _ \<Rightarrow> ''[object Object]'')\<rparr>"

definition sample_proc :: proc where
  "sample_proc = \<lparr>process_env = [''_HANDLER'' \<mapsto> ''main.handler''], effects = []\<rparr>"

definition answer :: "nat \<Rightarrow> (string \<times> string) list \<Rightarrow> string \<Rightarrow> Response" where
  "answer st hs txt = \<lparr>status = st, headers_get = map_of hs, text_body = txt\<rparr>"

definition sample_url :: string where
  "sample_url = ''http://127.0.0.1:9001/2018-06-01/runtime/''"

definition sample_invocation :: "Response \<Rightarrow> race_outcome \<Rightarrow> Response option \<Rightarrow> invocation" where
  "sample_invocation a out rep =
     \<lparr>next_answer = a, now_default = 1000, now_start = 1001,
      race = (\<lambda>ev d. out), report_answer = rep\<rparr>"

text \<open>
  A well-formed answer to a poll, the request it carries and the state of the sample
  process once it has been received.
\<close>

definition sample_poll :: Response where
  "sample_poll =
     answer 200 [(''Lambda-Runtime-Aws-Request-Id'', ''r1''),
                 (''Lambda-Runtime-Trace-Id'', ''t1'')] ''{}''"

definition sample_request :: LambdaRequest where
  "sample_request = \<lparr>requestId = ''r1'', traceId = ''t1'', deadlineMs = None, event = JObj []\<rparr>"

definition sample_polled :: proc where
  "sample_polled = emit (Fetch (sample_url @ ''invocation/next'') None) sample_proc"

text \<open>
  A process with the three variables of the runtime set, and a cold start in which one
  module exists, at \<open>/var/task/main\<close>.
\<close>

definition sample_lambda_proc :: proc where
  "sample_lambda_proc =
     \<lparr>process_env = [''AWS_LAMBDA_RUNTIME_API'' \<mapsto> ''127.0.0.1:9001'',
                      ''_HANDLER'' \<mapsto> ''main.handler'',
                      ''LAMBDA_TASK_ROOT'' \<mapsto> ''/var/task''],
      effects = []\<rparr>"

definition sample_startup :: "import_result \<Rightarrow> Response option \<Rightarrow> startup" where
  "sample_startup imp ans =
     \<lparr>import_module =
        (\<lambda>path. if path = ''/var/task/main'' then imp
                else ImportThrows (JError ''Error'' (''Cannot find module '' @ path) None)),
      init_error_answer = ans\<rparr>"

section \<open>Basic facts\<close>

lemma str_nat_small: "n < 10 \<Longrightarrow> str_nat n = [''0123456789'' ! n]"
  by (subst str_nat.simps) simp

lemma str_nat_large:
  "10 \<le> n \<Longrightarrow> str_nat n = str_nat (n div 10) @ [''0123456789'' ! (n mod 10)]"
  by (subst str_nat.simps) simp

lemma and_then_simps [simp]:
  "and_then (Exited c q) f = Exited c q"
  "and_then (Uncaught q) f = Uncaught q"
  "and_then (Pending q) f = Pending q"
  "and_then (Return x q) f = f x q"
  by (simp_all add: and_then_def)

lemma finally_reset_simps [simp]:
  "finally_reset (Exited c q) = Exited c q"
  "finally_reset (Uncaught q) = Uncaught (resetTraceId q)"
  "finally_reset (Pending q) = Pending q"
  "finally_reset (Return x q) = Return () (resetTraceId q)"
  by (simp_all add: finally_reset_def)

lemma emit_simps [simp]:
  "process_env (emit e p) = process_env p"
  "effects (emit e p) = effects p @ [(process_env p trace_var, e)]"
  by (simp_all add: emit_def)

lemma setTraceId_simps [simp]:
  "process_env (setTraceId t p) trace_var = Some t"
  "effects (setTraceId t p) = effects p"
  by (simp_all add: setTraceId_def)

lemma resetTraceId_simps [simp]:
  "process_env (resetTraceId p) trace_var = None"
  "effects (resetTraceId p) = effects p"
  by (simp_all add: resetTraceId_def)

lemma fetch_accepts_simps [simp]:
  "fetch_accepts B None"
  "fetch_accepts B (Some \<lparr>http_method = m, body = b, headers = hs\<rparr>) =
     list_all (\<lambda>h. header_value_ok B (snd h)) hs"
  by (simp_all add: fetch_accepts_def)

lemma header_value_ok_fixed [simp]:
  "header_value_ok B (JStr ''application/json'')"
  "header_value_ok B (JStr ''application/vnd.aws.lambda.error+json'')"
  "header_value_ok B (JStr ''TimeoutError'')"
  "header_value_ok B (JStr ''UnknownError'')"
  "header_value_ok B (JStr ''FileDoesNotExist'')"
  "header_value_ok B (JStr ''InitError'')"
  "header_value_ok B (JStr ''MethodDoesNotExist'')"
  "header_value_ok B (JStr ''MethodIsNotAFunction'')"
  by (simp_all add: header_value_ok_def)

lemma lambdaFetch_refused:
  "\<not> fetch_accepts B opts \<Longrightarrow> lambdaFetch B rt url opts ans p = Uncaught p"
  by (simp add: lambdaFetch_def)

lemma lambdaFetch_not_ok:
  "fetch_accepts B opts \<Longrightarrow> \<not> ok r \<Longrightarrow>
   lambdaFetch B rt url opts (Some r) p =
     Exited 1 (emit (ConsoleError [JStr (''Runtime failed to send request to Lambda [status: ''
                                         @ str_nat (status r) @ '']'')])
                 (emit (Fetch (url_href B url rt) opts) p))"
  by (simp add: lambdaFetch_def exit_def Let_def)

lemma lambdaFetch_ok:
  "fetch_accepts B opts \<Longrightarrow> ok r \<Longrightarrow>
   lambdaFetch B rt url opts (Some r) p = Return r (emit (Fetch (url_href B url rt) opts) p)"
  by (simp add: lambdaFetch_def Let_def)

lemma lambdaFetch_unanswered:
  "fetch_accepts B opts \<Longrightarrow>
   lambdaFetch B rt url opts None p = Pending (emit (Fetch (url_href B url rt) opts) p)"
  by (simp add: lambdaFetch_def Let_def)

lemma receive_violation:
  assumes "headers_get a ''Lambda-Runtime-Aws-Request-Id'' = None \<or>
           headers_get a ''Lambda-Runtime-Trace-Id'' = None \<or>
           isl (json_parse B (text_body a))"
  shows "\<exists>q cause. receiveRequest B rt (Some a) p = Exited 1 q \<and>
           process_env q = process_env p \<and>
           effects q = effects p @
             [(process_env p trace_var, Fetch (url_href B ''invocation/next'' rt) None),
              (process_env p trace_var, ConsoleError cause)]"
  using assms
  by (cases "ok a")
     (auto simp: receiveRequest_def fetchNextInvocation_def lambdaFetch_not_ok lambdaFetch_ok
                 exit_def isl_def split: option.splits sum.splits)

lemma wire_not_ok:
  assumes "\<not> ok r"
  shows "\<exists>q. fetchNextInvocation B rt (Some r) p = Exited 1 q"
    and "\<exists>q. sendInvocationResponse B rt rid b (Some r) p = Exited 1 q"
    and "header_value_ok B (errorType (formatError B e)) \<Longrightarrow>
           \<exists>q. sendInvocationError B rt rid e (Some r) p = Exited 1 q"
    and "header_value_ok B (errorType (formatError B e)) \<Longrightarrow>
           \<exists>q. sendInitError B rt e (Some r) p = Exited 1 q"
  using assms
  by (simp_all add: fetchNextInvocation_def sendInvocationResponse_def sendInvocationError_def
                    sendInitError_def sendBaseError_def Let_def lambdaFetch_not_ok)

lemma sendBaseError_ended:
  assumes "\<not> ok r"
  shows "ended (sendBaseError B rt url e (Some r) p)"
proof (cases "header_value_ok B (errorType (formatError B e))")
  case True
  with assms show ?thesis
    by (simp add: sendBaseError_def Let_def lambdaFetch_not_ok)
next
  case False
  then show ?thesis
    by (simp add: sendBaseError_def Let_def lambdaFetch_refused)
qed

lemma iteration_report_not_ok:
  assumes "\<not> ok r" and "report_answer iv = Some r"
    and "receiveRequest B rt (Some (next_answer iv)) p = Return req p1"
  shows "ended (iteration B rt l iv p)"
    and "(\<forall>cause. race iv (event req)
                    (durationMs (deadlineMs req) (now_default iv) (now_start iv))
                  = HandlerRejected cause \<longrightarrow>
                  header_value_ok B (errorType (formatError B (caught cause)))) \<Longrightarrow>
         \<exists>q. iteration B rt l iv p = Exited 1 q"
proof -
  show "ended (iteration B rt l iv p)"
  proof (cases "race iv (event req) (durationMs (deadlineMs req) (now_default iv) (now_start iv))")
    case (HandlerRejected cause)
    have "ended (finally_reset x)" if "ended x" for x :: "Response result"
      using that by (cases x) simp_all
    with sendBaseError_ended [OF assms(1)] HandlerRejected assms(2,3) show ?thesis
      by (simp add: iteration_def Let_def sendInvocationError_def)
  qed (use assms in \<open>simp_all add: iteration_def Let_def sendInvocationResponse_def
         sendInvocationError_def sendBaseError_def lambdaFetch_not_ok\<close>)
next
  assume "\<forall>cause. race iv (event req)
                    (durationMs (deadlineMs req) (now_default iv) (now_start iv))
                  = HandlerRejected cause \<longrightarrow>
                  header_value_ok B (errorType (formatError B (caught cause)))"
  with assms show "\<exists>q. iteration B rt l iv p = Exited 1 q"
    by (cases "race iv (event req) (durationMs (deadlineMs req) (now_default iv) (now_start iv))")
       (simp_all add: iteration_def Let_def sendInvocationResponse_def sendInvocationError_def
                      sendBaseError_def lambdaFetch_not_ok)
qed

section \<open>Environment resolver\<close>

text \<open>
  Claim C7. For every name and optional fallback, \<open>env\<close> returns the value of the
  environment variable when it is set, else the fallback when one is given, else the
  process fails: it writes a message that names the missing variable to the error
  console and exits with status 1 (the failure the specification calls ConfigError).
\<close>

theorem env_resolves:
  "(process_env p name = Some v \<longrightarrow> env name fallback p = Return v p) \<and>
   (process_env p name = None \<and> fallback = Some f \<longrightarrow> env name fallback p = Return f p) \<and>
   (process_env p name = None \<and> fallback = None \<longrightarrow>
      env name fallback p =
        Exited 1 (emit (ConsoleError
          [JStr (''Runtime failed to find the '' @ quote name @ '' environment variable'')]) p) \<and>
      sublist name (''Runtime failed to find the '' @ quote name @ '' environment variable''))"
  by (auto simp: env_def exit_def quote_def sublist_def intro: exI [of _ "''Runtime failed to find the '' @ [CHR 0x27]"])

theorem env_resolves_witness:
  "env ''_HANDLER'' None sample_proc = Return ''main.handler'' sample_proc \<and>
   env ''LAMBDA_TASK_ROOT'' (Some ''/var/task'') sample_proc = Return ''/var/task'' sample_proc \<and>
   env ''LAMBDA_TASK_ROOT'' None sample_proc =
     Exited 1 (emit (ConsoleError
       [JStr (''Runtime failed to find the '' @ quote ''LAMBDA_TASK_ROOT'' @ '' environment variable'')])
       sample_proc)"
  using env_resolves [of sample_proc "''_HANDLER''" "''main.handler''" None]
        env_resolves [of sample_proc "''LAMBDA_TASK_ROOT''" undefined "Some ''/var/task''" "''/var/task''"]
        env_resolves [of sample_proc "''LAMBDA_TASK_ROOT''" undefined None]
  by (simp add: sample_proc_def)

section \<open>Execution budget\<close>

text \<open>
  Claim C8, as stated: without a deadline the budget equals 60 seconds. The default
  deadline and the subtraction read the clock one after the other; when the clock
  advances by a millisecond between the two readings the budget is 59999 ms.
\<close>

theorem durationMs_no_deadline_counterexample:
  "durationMs None 1000 1001 \<noteq> 60000"
  by (simp add: durationMs_def)

text \<open>
  Claim C8, amended. With a deadline the budget is the larger of 1 ms and the deadline
  minus the current time. Without a deadline it is the larger of 1 ms and 60000 ms
  minus the time between the two clock readings: 60000 ms when both readings are equal,
  and never more when the clock does not go backwards.
\<close>

theorem durationMs_budget:
  "durationMs (Some d) t1 t2 = max 1 (d - t2) \<and>
   durationMs None t1 t2 = max 1 (60000 - (t2 - t1)) \<and>
   (t1 = t2 \<longrightarrow> durationMs None t1 t2 = 60000) \<and>
   (t1 \<le> t2 \<longrightarrow> durationMs None t1 t2 \<le> 60000)"
  by (simp add: durationMs_def algebra_simps)

theorem durationMs_budget_witness:
  "durationMs (Some 5000) 1000 1000 = 4000 \<and> durationMs (Some 500) 1000 1000 = 1 \<and>
   durationMs None 1000 1000 = 60000 \<and> durationMs None 1000 1001 = 59999"
  using durationMs_budget [of 5000 1000 1000] durationMs_budget [of 500 1000 1000]
        durationMs_budget [of undefined 1000 1001]
  by simp

section \<open>Fatal protocol failures\<close>

text \<open>
  Claim C1. When the answer to a poll lacks the request id header or the trace id
  header, or its body is not valid JSON, the process exits with status 1 having made
  the poll request and written to the error console, and nothing else: no error report
  is sent. An answer that is not a success status to any of the four wire operations
  (next invocation, response, invocation error, init error) ends the process as well,
  also in the middle of a turn of the loop: with status 1 whenever the request was
  sent, which holds for every poll and response and for every error report whose kind
  is a legal header value; an error report that \<open>fetch\<close> refuses ends the process on the
  uncaught TypeError instead.
\<close>

theorem protocol_violations_are_fatal:
  "(headers_get (next_answer iv) ''Lambda-Runtime-Aws-Request-Id'' = None \<or>
    headers_get (next_answer iv) ''Lambda-Runtime-Trace-Id'' = None \<or>
    isl (json_parse B (text_body (next_answer iv))) \<longrightarrow>
      (\<exists>q cause. serve B rt l (iv # rest) p = Exited 1 q \<and>
         process_env q = process_env p \<and>
         effects q = effects p @
           [(process_env p trace_var, Fetch (url_href B ''invocation/next'' rt) None),
            (process_env p trace_var, ConsoleError cause)])) \<and>
   (\<not> ok r \<longrightarrow>
      (\<exists>q. fetchNextInvocation B rt (Some r) p = Exited 1 q) \<and>
      (\<exists>q. sendInvocationResponse B rt rid b (Some r) p = Exited 1 q) \<and>
      ended (sendInvocationError B rt rid e (Some r) p) \<and>
      ended (sendInitError B rt e (Some r) p) \<and>
      (header_value_ok B (errorType (formatError B e)) \<longrightarrow>
         (\<exists>q. sendInvocationError B rt rid e (Some r) p = Exited 1 q) \<and>
         (\<exists>q. sendInitError B rt e (Some r) p = Exited 1 q))) \<and>
   (\<not> ok r \<and> report_answer iv = Some r \<and>
    receiveRequest B rt (Some (next_answer iv)) p = Return req p1 \<longrightarrow>
      ended (serve B rt l (iv # rest) p) \<and>
      ((\<forall>cause. race iv (event req)
                   (durationMs (deadlineMs req) (now_default iv) (now_start iv))
                 = HandlerRejected cause \<longrightarrow>
                 header_value_ok B (errorType (formatError B (caught cause)))) \<longrightarrow>
       (\<exists>q. serve B rt l (iv # rest) p = Exited 1 q)))"
proof (intro conjI impI)
  assume v: "headers_get (next_answer iv) ''Lambda-Runtime-Aws-Request-Id'' = None \<or>
    headers_get (next_answer iv) ''Lambda-Runtime-Trace-Id'' = None \<or>
    isl (json_parse B (text_body (next_answer iv)))"
  from receive_violation [OF v, of rt p]
  show "\<exists>q cause. serve B rt l (iv # rest) p = Exited 1 q \<and>
         process_env q = process_env p \<and>
         effects q = effects p @
           [(process_env p trace_var, Fetch (url_href B ''invocation/next'' rt) None),
            (process_env p trace_var, ConsoleError cause)]"
    by (auto simp: iteration_def)
next
  assume a: "\<not> ok r \<and> report_answer iv = Some r \<and>
    receiveRequest B rt (Some (next_answer iv)) p = Return req p1"
  then have "ended (iteration B rt l iv p)"
    using iteration_report_not_ok(1) by blast
  then show "ended (serve B rt l (iv # rest) p)"
    by (cases "iteration B rt l iv p") simp_all
  assume "\<forall>cause. race iv (event req)
                   (durationMs (deadlineMs req) (now_default iv) (now_start iv))
                 = HandlerRejected cause \<longrightarrow>
                 header_value_ok B (errorType (formatError B (caught cause)))"
  with a obtain q where "iteration B rt l iv p = Exited 1 q"
    using iteration_report_not_ok(2) by blast
  then show "\<exists>q. serve B rt l (iv # rest) p = Exited 1 q" by simp
next
  assume "\<not> ok r"
  then show "ended (sendInvocationError B rt rid e (Some r) p)"
    and "ended (sendInitError B rt e (Some r) p)"
    by (simp_all add: sendInvocationError_def sendInitError_def sendBaseError_ended)
qed (simp_all add: wire_not_ok)

lemma sample_receive:
  "receiveRequest sample_builtins sample_url
     (Some (answer 200 [(''Lambda-Runtime-Aws-Request-Id'', ''r1''),
                        (''Lambda-Runtime-Trace-Id'', ''t1'')] ''{}'')) sample_proc =
   Return \<lparr>requestId = ''r1'', traceId = ''t1'', deadlineMs = None, event = JObj []\<rparr>
     (emit (Fetch (sample_url @ ''invocation/next'') None) sample_proc)"
  by (simp add: receiveRequest_def fetchNextInvocation_def lambdaFetch_def ok_def answer_def
                sample_builtins_def parse_deadline_def)

theorem protocol_violations_are_fatal_witness:
  "(\<exists>q cause.
      serve sample_builtins sample_url (JFunction 0)
        [sample_invocation (answer 200 [(''Lambda-Runtime-Aws-Request-Id'', ''r1'')] ''{}'')
           TimerFirst None] sample_proc = Exited 1 q \<and>
      process_env q = process_env sample_proc \<and>
      effects q = effects sample_proc @
        [(process_env sample_proc trace_var,
          Fetch (url_href sample_builtins ''invocation/next'' sample_url) None),
         (process_env sample_proc trace_var, ConsoleError cause)]) \<and>
   (\<exists>q. sendInitError sample_builtins sample_url
          (JObj [(''type'', JStr ''InitError''), (''cause'', JNull)])
          (Some (answer 500 [] [])) sample_proc = Exited 1 q) \<and>
   (\<exists>q. serve sample_builtins sample_url (JFunction 0)
          [sample_invocation
             (answer 200 [(''Lambda-Runtime-Aws-Request-Id'', ''r1''),
                          (''Lambda-Runtime-Trace-Id'', ''t1'')] ''{}'')
             (HandlerResolved JNull) (Some (answer 500 [] []))] sample_proc = Exited 1 q)"
  using protocol_violations_are_fatal
          [where iv = "sample_invocation
                         (answer 200 [(''Lambda-Runtime-Aws-Request-Id'', ''r1'')] ''{}'')
                         TimerFirst None"
             and B = sample_builtins and rt = sample_url and l = "JFunction 0" and rest = "[]"
             and p = sample_proc and r = "answer 500 [] []"
             and e = "JObj [(''type'', JStr ''InitError''), (''cause'', JNull)]"]
        protocol_violations_are_fatal
          [where iv = "sample_invocation
                         (answer 200 [(''Lambda-Runtime-Aws-Request-Id'', ''r1''),
                                      (''Lambda-Runtime-Trace-Id'', ''t1'')] ''{}'')
                         (HandlerResolved JNull) (Some (answer 500 [] []))"
             and B = sample_builtins and rt = sample_url and l = "JFunction 0" and rest = "[]"
             and p = sample_proc and r = "answer 500 [] []"
             and req = "\<lparr>requestId = ''r1'', traceId = ''t1'', deadlineMs = None,
                          event = JObj []\<rparr>"
             and ?p1.0 = "emit (Fetch (sample_url @ ''invocation/next'') None) sample_proc"]
        sample_receive
  by (simp add: sample_invocation_def answer_def ok_def)

lemma split_on_nonempty: "split_on c s \<noteq> []"
  by (induction s) (auto split: list.splits)

lemma split_on_pieces: "l \<in> set (split_on c s) \<Longrightarrow> c \<notin> set l"
proof (induction s arbitrary: l)
  case Nil
  then show ?case by simp
next
  case (Cons x xs)
  obtain h t where ht: "split_on c xs = h # t"
    using split_on_nonempty [of c xs] by (cases "split_on c xs") auto
  show ?case
  proof (cases "x = c")
    case True
    with Cons show ?thesis by auto
  next
    case False
    with Cons.prems ht have "l = x # h \<or> l \<in> set t" by auto
    then show ?thesis
    proof
      assume "l = x # h"
      moreover have "c \<notin> set h" using Cons.IH [of h] ht by simp
      ultimately show ?thesis using False by auto
    next
      assume "l \<in> set t"
      then show ?thesis using Cons.IH [of l] ht by simp
    qed
  qed
qed

lemma split_on_join: "concat (map (\<lambda>l. l @ [c]) (split_on c s)) = s @ [c]"
proof (induction s)
  case Nil
  then show ?case by simp
next
  case (Cons x xs)
  obtain h t where ht: "split_on c xs = h # t"
    using split_on_nonempty [of c xs] by (cases "split_on c xs") auto
  with Cons show ?case by auto
qed

lemma str_nat_digits: "set (str_nat n) \<subseteq> set ''0123456789''"
proof (induction n rule: str_nat.induct)
  case (1 n)
  have d: "\<And>k. k < 10 \<Longrightarrow> ''0123456789'' ! k \<in> set ''0123456789''"
    by (rule nth_mem) simp
  show ?case
  proof (cases "n < 10")
    case True
    then show ?thesis using d [of n] by (subst str_nat.simps) simp
  next
    case False
    have "n mod 10 < 10" by simp
    with False 1 d [of "n mod 10"] show ?thesis
      by (subst str_nat.simps) simp
  qed
qed

lemma str_nat_nonempty: "str_nat n \<noteq> []"
  by (subst str_nat.simps) simp

lemma not_index:
  "str_nat n \<noteq> ''type''" "str_nat n \<noteq> ''cause''"
  "''type'' \<noteq> str_nat n" "''cause'' \<noteq> str_nat n"
proof -
  have t: "CHR ''t'' \<notin> set (str_nat n)" and c: "CHR ''c'' \<notin> set (str_nat n)"
    using str_nat_digits [of n] by auto
  from t show a: "str_nat n \<noteq> ''type''" by auto
  from c show b: "str_nat n \<noteq> ''cause''" by auto
  from a show "''type'' \<noteq> str_nat n" by (rule not_sym)
  from b show "''cause'' \<noteq> str_nat n" by (rule not_sym)
qed

lemma isSerializableError_iff:
  "isSerializableError v \<longleftrightarrow>
     (\<exists>n m st. v = JError n m st) \<or>
     (\<exists>ps. v = JObj ps \<and> ''type'' \<in> fst ` set ps \<and> ''cause'' \<in> fst ` set ps)"
  by (cases v) (auto simp: isSerializableError_def not_index)

lemma caught_serializable: "isSerializableError (caught v)"
  by (simp add: caught_def isSerializableError_def)



section \<open>Error formatter\<close>

text \<open>
  Claim C4. A caught value is classified in one of three ways. An instance of \<open>Error\<close>
  gives an envelope with the error's own name as kind, its message, and its stack
  trace split at the line breaks (joining the pieces with line breaks gives the stack
  back, and no piece contains a line break). An object that has the properties \<open>type\<close>
  and \<open>cause\<close> gives an envelope with that \<open>type\<close> as kind, the rendering of \<open>cause\<close> as
  message, and no stack. Every other value gives the kind \<open>UnknownError\<close>, the rendering
  of the value as message, and no stack.
\<close>

theorem error_formatter_classifies:
  "formatError B (caught (JError n m st)) =
     \<lparr>errorType = JStr n, errorMessage = m,
      stackTrace = map_option (split_on newline) st\<rparr> \<and>
   concat (map (\<lambda>l. l @ [newline]) (split_on newline s)) = s @ [newline] \<and>
   (\<forall>l \<in> set (split_on newline s). newline \<notin> set l) \<and>
   (map_of ps ''type'' = Some k \<and> map_of ps ''cause'' = Some c \<longrightarrow>
      formatError B (caught (JObj ps)) =
        \<lparr>errorType = k, errorMessage = inspect B c, stackTrace = None\<rparr>) \<and>
   ((\<forall>n m st. v \<noteq> JError n m st) \<and>
    (\<forall>ps. v = JObj ps \<longrightarrow> ''type'' \<notin> fst ` set ps \<or> ''cause'' \<notin> fst ` set ps) \<longrightarrow>
      formatError B (caught v) =
        \<lparr>errorType = JStr ''UnknownError'', errorMessage = inspect B v, stackTrace = None\<rparr>)"
proof (intro conjI impI ballI)
  show "formatError B (caught (JError n m st)) =
     \<lparr>errorType = JStr n, errorMessage = m, stackTrace = map_option (split_on newline) st\<rparr>"
    by (simp add: caught_def isSerializableError_def)
next
  show "concat (map (\<lambda>l. l @ [newline]) (split_on newline s)) = s @ [newline]"
    by (rule split_on_join)
next
  fix l assume "l \<in> set (split_on newline s)"
  then show "newline \<notin> set l" by (rule split_on_pieces)
next
  assume a: "map_of ps ''type'' = Some k \<and> map_of ps ''cause'' = Some c"
  then have "''type'' \<in> fst ` set ps" "''cause'' \<in> fst ` set ps"
    by (auto dest: map_of_SomeD intro: rev_image_eqI)
  then have "caught (JObj ps) = JObj ps"
    by (simp add: caught_def isSerializableError_def)
  with a show "formatError B (caught (JObj ps)) =
        \<lparr>errorType = k, errorMessage = inspect B c, stackTrace = None\<rparr>"
    by simp
next
  assume a: "(\<forall>n m st. v \<noteq> JError n m st) \<and>
    (\<forall>ps. v = JObj ps \<longrightarrow> ''type'' \<notin> fst ` set ps \<or> ''cause'' \<notin> fst ` set ps)"
  then have "\<not> isSerializableError v"
    unfolding isSerializableError_iff by blast
  then show "formatError B (caught v) =
        \<lparr>errorType = JStr ''UnknownError'', errorMessage = inspect B v, stackTrace = None\<rparr>"
    by (simp add: caught_def)
qed

theorem error_formatter_classifies_witness:
  "formatError sample_builtins (caught (JError ''Error'' ''boom'' (Some (''Error: boom'' @ [newline] @ ''    at main.ts:1'')))) =
     \<lparr>errorType = JStr ''Error'', errorMessage = ''boom'',
      stackTrace = Some [''Error: boom'', ''    at main.ts:1'']\<rparr> \<and>
   formatError sample_builtins
     (caught (JObj [(''type'', JStr ''Denied''), (''cause'', JStr ''no'')])) =
     \<lparr>errorType = JStr ''Denied'', errorMessage = [CHR 0x22] @ ''no'' @ [CHR 0x22],
      stackTrace = None\<rparr> \<and>
   formatError sample_builtins (caught (JNum 7)) =
     \<lparr>errorType = JStr ''UnknownError'', errorMessage = ''[value]'', stackTrace = None\<rparr>"
proof -
  note t = error_formatter_classifies
          [where B = sample_builtins and n = "''Error''" and m = "''boom''"
             and st = "Some (''Error: boom'' @ [newline] @ ''    at main.ts:1'')"
             and ps = "[(''type'', JStr ''Denied''), (''cause'', JStr ''no'')]"
             and k = "JStr ''Denied''" and c = "JStr ''no''" and v = "JNum 7" and s = "[]"]
  have a: "formatError sample_builtins (caught (JError ''Error'' ''boom'' (Some (''Error: boom'' @ [newline] @ ''    at main.ts:1'')))) =
     \<lparr>errorType = JStr ''Error'', errorMessage = ''boom'',
      stackTrace = map_option (split_on newline) (Some (''Error: boom'' @ [newline] @ ''    at main.ts:1''))\<rparr>"
    using t by (rule conjunct1)
  have s: "split_on newline (''Error: boom'' @ [newline] @ ''    at main.ts:1'') = [''Error: boom'', ''    at main.ts:1'']"
    by (simp add: newline_def)
  have b: "formatError sample_builtins
     (caught (JObj [(''type'', JStr ''Denied''), (''cause'', JStr ''no'')])) =
     \<lparr>errorType = JStr ''Denied'', errorMessage = inspect sample_builtins (JStr ''no''),
      stackTrace = None\<rparr>"
    using t by simp
  have c: "formatError sample_builtins (caught (JNum 7)) =
     \<lparr>errorType = JStr ''UnknownError'', errorMessage = inspect sample_builtins (JNum 7), stackTrace = None\<rparr>"
    using t by simp
  have i: "inspect sample_builtins (JStr ''no'') = [CHR 0x22] @ ''no'' @ [CHR 0x22]"
     "inspect sample_builtins (JNum 7) = ''[value]''"
    by (simp_all add: sample_builtins_def)
  show ?thesis
    unfolding a b c i using s by simp
qed

lemma receive_Return_state:
  assumes "receiveRequest B rt (Some a) p = Return req p1"
  shows "p1 = emit (Fetch (url_href B ''invocation/next'' rt) None) p"
  using assms
  by (cases "ok a")
     (auto simp: receiveRequest_def fetchNextInvocation_def lambdaFetch_not_ok lambdaFetch_ok
                 exit_def split: option.splits sum.splits)

lemma receiveRequest_Return:
  assumes "ok a"
    and "headers_get a ''Lambda-Runtime-Aws-Request-Id'' = Some rid"
    and "headers_get a ''Lambda-Runtime-Trace-Id'' = Some tid"
    and "json_parse B (text_body a) = Inr ev"
  shows "receiveRequest B rt (Some a) p =
           Return \<lparr>requestId = rid, traceId = tid,
                   deadlineMs = parse_deadline B (headers_get a ''Lambda-Runtime-Deadline-Ms''),
                   event = ev\<rparr>
             (emit (Fetch (url_href B ''invocation/next'' rt) None) p)"
  using assms
  by (simp add: receiveRequest_def fetchNextInvocation_def lambdaFetch_ok)

lemma iteration_resolved:
  assumes "receiveRequest B rt (Some (next_answer iv)) p = Return req p1"
    and "race iv (event req) (durationMs (deadlineMs req) (now_default iv) (now_start iv))
           = HandlerResolved data"
  shows "iteration B rt l iv p =
           and_then
             (sendInvocationResponse B rt (requestId req) (response_body B data)
                (report_answer iv)
                (resetTraceId (emit (Invoke l (event req)) (setTraceId (traceId req) p1))))
             (\<lambda>_ p3. Return () p3)"
  using assms by (simp add: iteration_def Let_def)

lemma iteration_rejected:
  assumes "receiveRequest B rt (Some (next_answer iv)) p = Return req p1"
    and "race iv (event req) (durationMs (deadlineMs req) (now_default iv) (now_start iv))
           = HandlerRejected cause"
  shows "iteration B rt l iv p =
           finally_reset
             (sendInvocationError B rt (requestId req) (caught cause) (report_answer iv)
                (emit (Invoke l (event req)) (setTraceId (traceId req) p1)))"
  using assms by (simp add: iteration_def Let_def)

lemma iteration_timeout:
  assumes "receiveRequest B rt (Some (next_answer iv)) p = Return req p1"
    and "race iv (event req) (durationMs (deadlineMs req) (now_default iv) (now_start iv))
           = TimerFirst"
  shows "iteration B rt l iv p =
           and_then
             (sendInvocationError B rt (requestId req)
                (JObj [(''type'', JStr ''TimeoutError''),
                       (''cause'', JStr (''Function timed out after ''
                          @ num_str (durationMs (deadlineMs req) (now_default iv) (now_start iv))
                          @ ''ms''))])
                (report_answer iv)
                (resetTraceId (emit (Invoke l (event req)) (setTraceId (traceId req) p1))))
             (\<lambda>_ p3. Return () p3)"
  using assms by (simp add: iteration_def Let_def)

lemma lambdaFetch_effects:
  "fetch_accepts B opts \<Longrightarrow>
   effects (proc_of (lambdaFetch B rt url opts ans p)) =
     effects p @ (process_env p trace_var, Fetch (url_href B url rt) opts) #
       fetch_failure (process_env p trace_var) ans"
  by (cases ans) (simp_all add: lambdaFetch_def exit_def fetch_failure_def Let_def)

lemma proc_of_and_then_Return [simp]:
  "proc_of (and_then r (\<lambda>_ p3. Return () p3)) = proc_of r"
  by (cases r) simp_all


lemma sample_poll_received:
  "receiveRequest sample_builtins sample_url (Some sample_poll) sample_proc =
     Return sample_request sample_polled"
  unfolding sample_poll_def sample_request_def sample_polled_def by (rule sample_receive)

section \<open>Success response\<close>

text \<open>
  Claim C3. In a turn of the loop whose handler returns the value \<open>X\<close>, the process polls,
  calls the handler, and then posts to \<open>invocation/<request id>/response\<close> a body that
  is absent when \<open>X\<close> is \<open>null\<close>, is \<open>X\<close> itself when \<open>X\<close> is a string, and is
  \<open>JSON.stringify(X)\<close> otherwise.
\<close>

theorem success_body:
  assumes "receiveRequest B rt (Some (next_answer iv)) p = Return req p1"
    and "race iv (event req) (durationMs (deadlineMs req) (now_default iv) (now_start iv))
           = HandlerResolved X"
  shows "effects (proc_of (iteration B rt l iv p)) =
           effects p @
           [(process_env p trace_var, Fetch (url_href B ''invocation/next'' rt) None),
            (Some (traceId req), Invoke l (event req)),
            (None, Fetch (url_href B (''invocation/'' @ requestId req @ ''/response'') rt)
                     (Some \<lparr>http_method = ''POST'', body = response_body B X,
                            headers = [(''Content-Type'', JStr ''application/json'')]\<rparr>))]
           @ fetch_failure None (report_answer iv) \<and>
         response_body B JNull = None \<and>
         response_body B (JStr s) = Some s \<and>
         (X \<noteq> JNull \<and> (\<forall>s. X \<noteq> JStr s) \<longrightarrow> response_body B X = stringify B X)"
proof -
  have p1: "p1 = emit (Fetch (url_href B ''invocation/next'' rt) None) p"
    using assms(1) by (rule receive_Return_state)
  have "X \<noteq> JNull \<and> (\<forall>s. X \<noteq> JStr s) \<longrightarrow> response_body B X = stringify B X"
    by (cases X) simp_all
  moreover have "effects (proc_of (iteration B rt l iv p)) =
           effects p @
           [(process_env p trace_var, Fetch (url_href B ''invocation/next'' rt) None),
            (Some (traceId req), Invoke l (event req)),
            (None, Fetch (url_href B (''invocation/'' @ requestId req @ ''/response'') rt)
                     (Some \<lparr>http_method = ''POST'', body = response_body B X,
                            headers = [(''Content-Type'', JStr ''application/json'')]\<rparr>))]
           @ fetch_failure None (report_answer iv)"
    unfolding iteration_resolved [OF assms] sendInvocationResponse_def
    by (simp add: lambdaFetch_effects p1)
  ultimately show ?thesis by simp
qed

lemma sample_facts:
  "effects sample_proc = []"
  "process_env sample_proc trace_var = None"
  "url_href sample_builtins u sample_url = sample_url @ u"
  by (simp_all add: sample_proc_def trace_var_def sample_builtins_def)

theorem success_body_witness:
  "effects (proc_of (iteration sample_builtins sample_url (JFunction 0)
      (sample_invocation sample_poll (HandlerResolved JNull) (Some (answer 202 [] [])))
      sample_proc)) =
     [(None, Fetch (sample_url @ ''invocation/next'') None),
      (Some ''t1'', Invoke (JFunction 0) (JObj [])),
      (None, Fetch (sample_url @ ''invocation/r1/response'')
               (Some \<lparr>http_method = ''POST'', body = None,
                      headers = [(''Content-Type'', JStr ''application/json'')]\<rparr>))] \<and>
   effects (proc_of (iteration sample_builtins sample_url (JFunction 0)
      (sample_invocation sample_poll (HandlerResolved (JStr ''hello'')) (Some (answer 202 [] [])))
      sample_proc)) =
     [(None, Fetch (sample_url @ ''invocation/next'') None),
      (Some ''t1'', Invoke (JFunction 0) (JObj [])),
      (None, Fetch (sample_url @ ''invocation/r1/response'')
               (Some \<lparr>http_method = ''POST'', body = Some ''hello'',
                      headers = [(''Content-Type'', JStr ''application/json'')]\<rparr>))] \<and>
   effects (proc_of (iteration sample_builtins sample_url (JFunction 0)
      (sample_invocation sample_poll (HandlerResolved (JObj [])) (Some (answer 202 [] [])))
      sample_proc)) =
     [(None, Fetch (sample_url @ ''invocation/next'') None),
      (Some ''t1'', Invoke (JFunction 0) (JObj [])),
      (None, Fetch (sample_url @ ''invocation/r1/response'')
               (Some \<lparr>http_method = ''POST'', body = Some ''{}'',
                      headers = [(''Content-Type'', JStr ''application/json'')]\<rparr>))]"
proof -
  have r: "\<And>out rep. receiveRequest sample_builtins sample_url
             (Some (next_answer (sample_invocation sample_poll out rep))) sample_proc =
           Return sample_request sample_polled"
    by (simp add: sample_invocation_def sample_poll_received)
  have o: "\<And>out rep ev d. race (sample_invocation sample_poll out rep) ev d = out"
    by (simp add: sample_invocation_def)
  have f: "fetch_failure None (report_answer (sample_invocation sample_poll out (Some (answer 202 [] [])))) = []" for out
    by (simp add: fetch_failure_def sample_invocation_def ok_def answer_def)
  have b: "stringify sample_builtins (JObj []) = Some ''{}''"
    by (simp add: sample_builtins_def)
  show ?thesis
    using success_body [where B = sample_builtins and rt = sample_url and l = "JFunction 0"
             and p = sample_proc and req = sample_request and ?p1.0 = sample_polled
             and iv = "sample_invocation sample_poll (HandlerResolved (JNull)) (Some (answer 202 [] []))"
             and X = "JNull" and s = "[]"]
          success_body [where B = sample_builtins and rt = sample_url and l = "JFunction 0"
             and p = sample_proc and req = sample_request and ?p1.0 = sample_polled
             and iv = "sample_invocation sample_poll (HandlerResolved (JStr ''hello'')) (Some (answer 202 [] []))"
             and X = "JStr ''hello''" and s = "''hello''"]
          success_body [where B = sample_builtins and rt = sample_url and l = "JFunction 0"
             and p = sample_proc and req = sample_request and ?p1.0 = sample_polled
             and iv = "sample_invocation sample_poll (HandlerResolved (JObj [])) (Some (answer 202 [] []))"
             and X = "JObj []" and s = "[]"]
    by (simp add: r o f b sample_facts sample_request_def)
qed

lemma sendBaseError_effects:
  "header_value_ok B (errorType (formatError B error)) \<Longrightarrow>
   effects (proc_of (sendBaseError B rt url error ans p)) =
     effects p @
       (process_env p trace_var,
        Fetch (url_href B url rt)
          (Some \<lparr>http_method = ''POST'',
                 body = stringify B (LambdaError_json (formatError B error)),
                 headers = [(''Lambda-Runtime-Function-Error-Type'',
                             errorType (formatError B error)),
                            (''Content-Type'', JStr ''application/vnd.aws.lambda.error+json'')]\<rparr>))
       # fetch_failure (process_env p trace_var) ans"
  by (simp add: sendBaseError_def Let_def lambdaFetch_effects)

lemma sendBaseError_ok:
  "header_value_ok B (errorType (formatError B error)) \<Longrightarrow> ok r \<Longrightarrow>
   sendBaseError B rt url error (Some r) p =
     Return r (emit (Fetch (url_href B url rt)
          (Some \<lparr>http_method = ''POST'',
                 body = stringify B (LambdaError_json (formatError B error)),
                 headers = [(''Lambda-Runtime-Function-Error-Type'',
                             errorType (formatError B error)),
                            (''Content-Type'', JStr ''application/vnd.aws.lambda.error+json'')]\<rparr>)) p)"
  by (simp add: sendBaseError_def Let_def lambdaFetch_ok)

lemma sendBaseError_refused:
  "\<not> header_value_ok B (errorType (formatError B error)) \<Longrightarrow>
   sendBaseError B rt url error ans p = Uncaught p"
  by (simp add: sendBaseError_def Let_def lambdaFetch_refused)

lemma lambdaFetch_env [simp]:
  "process_env (proc_of (lambdaFetch B rt url opts ans p)) = process_env p"
  by (cases ans) (simp_all add: lambdaFetch_def exit_def Let_def)

lemma finally_reset_effects [simp]:
  "effects (proc_of (finally_reset r)) = effects (proc_of r)"
  by (cases r) simp_all

lemma receive_effects:
  "\<exists>c. effects (proc_of (receiveRequest B rt (Some a) p)) =
         effects p @ (process_env p trace_var, Fetch (url_href B ''invocation/next'' rt) None) # c"
  by (cases "ok a")
     (auto simp: receiveRequest_def fetchNextInvocation_def lambdaFetch_not_ok lambdaFetch_ok
                 exit_def split: option.splits sum.splits)

lemma iteration_polls_first:
  "\<exists>tail. effects (proc_of (iteration B rt l iv p)) =
            effects p @ (process_env p trace_var, Fetch (url_href B ''invocation/next'' rt) None) # tail"
proof (cases "receiveRequest B rt (Some (next_answer iv)) p")
  case (Exited c q)
  with receive_effects [of B rt "next_answer iv" p] show ?thesis
    by (auto simp: iteration_def)
next
  case (Uncaught q)
  with receive_effects [of B rt "next_answer iv" p] show ?thesis
    by (auto simp: iteration_def)
next
  case (Pending q)
  with receive_effects [of B rt "next_answer iv" p] show ?thesis
    by (auto simp: iteration_def)
next
  case (Return req p1)
  have p1: "p1 = emit (Fetch (url_href B ''invocation/next'' rt) None) p"
    using Return by (rule receive_Return_state)
  show ?thesis
  proof (cases "race iv (event req) (durationMs (deadlineMs req) (now_default iv) (now_start iv))")
    case (HandlerResolved data)
    show ?thesis
      unfolding iteration_resolved [OF Return HandlerResolved] sendInvocationResponse_def
      by (simp add: lambdaFetch_effects p1)
  next
    case (HandlerRejected cause)
    show ?thesis
    proof (cases "header_value_ok B (errorType (formatError B (caught cause)))")
      case True
      then show ?thesis
        unfolding iteration_rejected [OF Return HandlerRejected] sendInvocationError_def
        by (simp add: sendBaseError_effects p1)
    next
      case False
      then show ?thesis
        unfolding iteration_rejected [OF Return HandlerRejected] sendInvocationError_def
        by (simp add: sendBaseError_refused p1)
    qed
  next
    case TimerFirst
    show ?thesis
      unfolding iteration_timeout [OF Return TimerFirst] sendInvocationError_def
      by (simp add: sendBaseError_effects p1)
  qed
qed

lemma serve_extends:
  "\<exists>tail. effects (proc_of (serve B rt l ivs q)) = effects q @ tail"
proof (induction ivs arbitrary: q)
  case Nil
  show ?case by (simp add: fetchNextInvocation_def lambdaFetch_unanswered)
next
  case (Cons iv rest)
  obtain t1 where t1: "effects (proc_of (iteration B rt l iv q)) = effects q @ t1"
    using iteration_polls_first [of B rt l iv q] by auto
  show ?case
  proof (cases "iteration B rt l iv q")
    case (Return u q')
    obtain t2 where "effects (proc_of (serve B rt l rest q')) = effects q' @ t2"
      using Cons.IH [of q'] by auto
    with Return t1 show ?thesis by simp
  qed (use t1 in simp_all)
qed

lemma serve_polls_first:
  "\<exists>tail. effects (proc_of (serve B rt l ivs q)) =
            effects q @ (process_env q trace_var, Fetch (url_href B ''invocation/next'' rt) None) # tail"
proof (cases ivs)
  case Nil
  then show ?thesis
    by (simp add: fetchNextInvocation_def lambdaFetch_unanswered)
next
  case (Cons iv rest)
  obtain t1 where t1: "effects (proc_of (iteration B rt l iv q)) =
      effects q @ (process_env q trace_var, Fetch (url_href B ''invocation/next'' rt) None) # t1"
    using iteration_polls_first [of B rt l iv q] by auto
  show ?thesis
  proof (cases "iteration B rt l iv q")
    case (Return u q')
    obtain t2 where "effects (proc_of (serve B rt l rest q')) = effects q' @ t2"
      using serve_extends [of B rt l rest q'] by auto
    with Return t1 Cons show ?thesis by simp
  qed (use t1 Cons in simp_all)
qed

section \<open>Handler failure\<close>

text \<open>
  Claim C2, as stated: when the handler throws, the process does not terminate. The
  error report is a wire call like the others: when the host answers it with status 500
  the process exits with status 1, with the trace-correlation variable still set.
\<close>

theorem handler_failure_exits_on_refused_report_counterexample:
  "serve sample_builtins sample_url (JFunction 0)
     [sample_invocation sample_poll (HandlerRejected (JError ''Error'' ''boom'' None))
        (Some (answer 500 [] []))] sample_proc =
   Exited 1
     (emit (ConsoleError [JStr ''Runtime failed to send request to Lambda [status: 500]''])
        (emit (Fetch (sample_url @ ''invocation/r1/error'')
                 (Some \<lparr>http_method = ''POST'', body = Some ''{}'',
                        headers = [(''Lambda-Runtime-Function-Error-Type'', JStr ''Error''),
                                   (''Content-Type'',
                                    JStr ''application/vnd.aws.lambda.error+json'')]\<rparr>))
           (emit (Invoke (JFunction 0) (JObj [])) (setTraceId ''t1'' sample_polled))))"
proof -
  have s: "str_nat 500 = ''500''" by (simp add: str_nat_small str_nat_large)
  show ?thesis
    by (simp add: iteration_def sample_invocation_def sample_poll_received durationMs_def
                  sample_request_def sendInvocationError_def sendBaseError_def Let_def
                  lambdaFetch_def ok_def answer_def exit_def caught_def isSerializableError_def
                  LambdaError_json_def s sample_facts fetch_accepts_def header_value_ok_def)
       (simp add: sample_builtins_def)
qed


text \<open>
  Claim C2, amended. When the handler settles first by throwing a value whose kind is a
  legal header value, and the host answers the error report with a success status, the
  turn of the loop returns: the value, wrapped as \<open>UnknownError\<close> unless it is an error
  shape, was formatted and posted to \<open>invocation/<request id>/error\<close> with its kind in
  the error-type header, the trace-correlation variable has then been cleared, and the
  next thing the process does is the next poll.
\<close>

theorem handler_failure_reported:
  assumes "receiveRequest B rt (Some (next_answer iv)) p = Return req p1"
    and "race iv (event req) (durationMs (deadlineMs req) (now_default iv) (now_start iv))
           = HandlerRejected v"
    and "report_answer iv = Some r" and "ok r"
    and "header_value_ok B (errorType (formatError B (caught v)))"
  shows "\<exists>q. iteration B rt l iv p = Return () q \<and>
           effects q =
             effects p @
             [(process_env p trace_var, Fetch (url_href B ''invocation/next'' rt) None),
              (Some (traceId req), Invoke l (event req)),
              (Some (traceId req),
               Fetch (url_href B (''invocation/'' @ requestId req @ ''/error'') rt)
                 (Some \<lparr>http_method = ''POST'',
                        body = stringify B (LambdaError_json (formatError B (caught v))),
                        headers = [(''Lambda-Runtime-Function-Error-Type'',
                                    errorType (formatError B (caught v))),
                                   (''Content-Type'',
                                    JStr ''application/vnd.aws.lambda.error+json'')]\<rparr>))] \<and>
           process_env q trace_var = None \<and>
           serve B rt l (iv # rest) p = serve B rt l rest q \<and>
           (\<exists>tail. effects (proc_of (serve B rt l (iv # rest) p)) =
              effects q @ (None, Fetch (url_href B ''invocation/next'' rt) None) # tail)"
proof -
  have p1: "p1 = emit (Fetch (url_href B ''invocation/next'' rt) None) p"
    using assms(1) by (rule receive_Return_state)
  define q where "q = resetTraceId (emit (Fetch (url_href B (''invocation/'' @ requestId req @ ''/error'') rt)
                 (Some \<lparr>http_method = ''POST'',
                        body = stringify B (LambdaError_json (formatError B (caught v))),
                        headers = [(''Lambda-Runtime-Function-Error-Type'',
                                    errorType (formatError B (caught v))),
                                   (''Content-Type'',
                                    JStr ''application/vnd.aws.lambda.error+json'')]\<rparr>))
              (emit (Invoke l (event req)) (setTraceId (traceId req) p1)))"
  have it: "iteration B rt l iv p = Return () q"
    unfolding iteration_rejected [OF assms(1,2)] sendInvocationError_def q_def
    by (simp add: assms(3) sendBaseError_ok [OF assms(5) assms(4)])
  have env: "process_env q trace_var = None"
    by (simp add: q_def)
  have sv: "serve B rt l (iv # rest) p = serve B rt l rest q"
    by (simp add: it)
  obtain tail where "effects (proc_of (serve B rt l rest q)) =
      effects q @ (process_env q trace_var, Fetch (url_href B ''invocation/next'' rt) None) # tail"
    using serve_polls_first [of B rt l rest q] by auto
  with env sv have nx: "\<exists>tail. effects (proc_of (serve B rt l (iv # rest) p)) =
              effects q @ (None, Fetch (url_href B ''invocation/next'' rt) None) # tail"
    by simp
  have ef: "effects q =
             effects p @
             [(process_env p trace_var, Fetch (url_href B ''invocation/next'' rt) None),
              (Some (traceId req), Invoke l (event req)),
              (Some (traceId req),
               Fetch (url_href B (''invocation/'' @ requestId req @ ''/error'') rt)
                 (Some \<lparr>http_method = ''POST'',
                        body = stringify B (LambdaError_json (formatError B (caught v))),
                        headers = [(''Lambda-Runtime-Function-Error-Type'',
                                    errorType (formatError B (caught v))),
                                   (''Content-Type'',
                                    JStr ''application/vnd.aws.lambda.error+json'')]\<rparr>))]"
    by (simp add: q_def p1)
  from it ef env sv nx show ?thesis by blast
qed

lemma sample_invocation_simps:
  "receiveRequest sample_builtins sample_url
     (Some (next_answer (sample_invocation sample_poll out rep))) sample_proc =
   Return sample_request sample_polled"
  "race (sample_invocation sample_poll out rep) ev d = out"
  "report_answer (sample_invocation a out rep) = rep"
  "now_default (sample_invocation a out rep) = 1000"
  "now_start (sample_invocation a out rep) = 1001"
  by (simp_all add: sample_invocation_def sample_poll_received)

lemma sample_request_simps:
  "requestId sample_request = ''r1''"
  "traceId sample_request = ''t1''"
  "deadlineMs sample_request = None"
  "event sample_request = JObj []"
  by (simp_all add: sample_request_def)

lemma ok_answer: "ok (answer 202 hs b)" "\<not> ok (answer 500 hs b)"
  by (simp_all add: ok_def answer_def)

theorem handler_failure_reported_witness:
  "\<exists>q. iteration sample_builtins sample_url (JFunction 0)
          (sample_invocation sample_poll (HandlerRejected (JStr ''oops''))
             (Some (answer 202 [] []))) sample_proc = Return () q \<and>
        effects q =
          [(None, Fetch (sample_url @ ''invocation/next'') None),
           (Some ''t1'', Invoke (JFunction 0) (JObj [])),
           (Some ''t1'',
            Fetch (sample_url @ ''invocation/r1/error'')
              (Some \<lparr>http_method = ''POST'', body = Some ''{}'',
                     headers = [(''Lambda-Runtime-Function-Error-Type'', JStr ''UnknownError''),
                                (''Content-Type'',
                                 JStr ''application/vnd.aws.lambda.error+json'')]\<rparr>))] \<and>
        process_env q trace_var = None"
proof -
  have f: "formatError sample_builtins (caught (JStr ''oops'')) =
             \<lparr>errorType = JStr ''UnknownError'',
              errorMessage = [CHR 0x22] @ ''oops'' @ [CHR 0x22], stackTrace = None\<rparr>"
    by (simp add: caught_def isSerializableError_def sample_builtins_def)
  have s: "stringify sample_builtins (LambdaError_json e) = Some ''{}''" for e
    by (simp add: LambdaError_json_def sample_builtins_def)
  have h: "header_value_ok sample_builtins
             (errorType (formatError sample_builtins (caught (JStr ''oops''))))"
    by (simp add: f)
  from handler_failure_reported
         [where B = sample_builtins and rt = sample_url and l = "JFunction 0"
            and iv = "sample_invocation sample_poll (HandlerRejected (JStr ''oops''))
                        (Some (answer 202 [] []))"
            and p = sample_proc and req = sample_request and ?p1.0 = sample_polled
            and v = "JStr ''oops''" and r = "answer 202 [] []" and rest = "[]",
          OF sample_invocation_simps(1) _ sample_invocation_simps(3) ok_answer(1) h]
  obtain q where
    "iteration sample_builtins sample_url (JFunction 0)
          (sample_invocation sample_poll (HandlerRejected (JStr ''oops''))
             (Some (answer 202 [] []))) sample_proc = Return () q"
    "effects q =
             effects sample_proc @
             [(process_env sample_proc trace_var,
               Fetch (url_href sample_builtins ''invocation/next'' sample_url) None),
              (Some (traceId sample_request), Invoke (JFunction 0) (event sample_request)),
              (Some (traceId sample_request),
               Fetch (url_href sample_builtins
                        (''invocation/'' @ requestId sample_request @ ''/error'') sample_url)
                 (Some \<lparr>http_method = ''POST'',
                        body = stringify sample_builtins
                                 (LambdaError_json (formatError sample_builtins (caught (JStr ''oops'')))),
                        headers = [(''Lambda-Runtime-Function-Error-Type'',
                                    errorType (formatError sample_builtins (caught (JStr ''oops'')))),
                                   (''Content-Type'',
                                    JStr ''application/vnd.aws.lambda.error+json'')]\<rparr>))]"
    "process_env q trace_var = None"
    unfolding sample_invocation_simps by blast
  then show ?thesis
    by (intro exI [of _ q]) (simp add: sample_request_simps sample_facts f s)
qed

lemma sublist_infix: "sublist ys (xs @ ys @ zs)"
  unfolding sublist_def by blast


section \<open>Timeout\<close>

text \<open>
  Claim C9, as stated: after a timeout the loop proceeds to the next poll. The timeout
  report is a wire call like the others: when the host answers it with status 500 the
  process exits with status 1 and no further poll is made.
\<close>

theorem timeout_exits_on_refused_report_counterexample:
  "serve sample_builtins sample_url (JFunction 0)
     [sample_invocation sample_poll TimerFirst (Some (answer 500 [] []))] sample_proc =
   Exited 1
     (emit (ConsoleError [JStr ''Runtime failed to send request to Lambda [status: 500]''])
        (emit (Fetch (sample_url @ ''invocation/r1/error'')
                 (Some \<lparr>http_method = ''POST'', body = Some ''{}'',
                        headers = [(''Lambda-Runtime-Function-Error-Type'', JStr ''TimeoutError''),
                                   (''Content-Type'',
                                    JStr ''application/vnd.aws.lambda.error+json'')]\<rparr>))
           (resetTraceId (emit (Invoke (JFunction 0) (JObj [])) (setTraceId ''t1'' sample_polled)))))"
proof -
  have s: "str_nat 500 = ''500''" by (simp add: str_nat_small str_nat_large)
  have e: "stringify sample_builtins (LambdaError_json e) = Some ''{}''" for e
    by (simp add: LambdaError_json_def sample_builtins_def)
  have n: "\<not> ok (answer 500 [] [])" by (rule ok_answer)
  have st: "status (answer 500 [] []) = 500" by (simp add: answer_def)
  show ?thesis
    unfolding serve.simps
      iteration_timeout [OF sample_invocation_simps(1) sample_invocation_simps(2)]
      sendInvocationError_def sendBaseError_def Let_def sample_invocation_simps
    by (simp add: lambdaFetch_not_ok [OF _ n] st e s sample_request_simps sample_facts)
qed


text \<open>
  Claim C9, amended. When the timer fires before the handler settles, an error of kind
  \<open>TimeoutError\<close> is posted to \<open>invocation/<request id>/error\<close>; its message is the
  rendering of the text \<open>Function timed out after <d>ms\<close>, where \<open>d\<close> is the computed
  budget in milliseconds (so the message contains \<open>d\<close> whenever the rendering of a text
  contains that text). Provided the host answers the report with a success status, the
  next thing the process does is the next poll: the handler was called once, nothing
  waits for it and nothing cancels it.
\<close>

theorem timeout_reported:
  assumes "receiveRequest B rt (Some (next_answer iv)) p = Return req p1"
    and "race iv (event req) (durationMs (deadlineMs req) (now_default iv) (now_start iv))
           = TimerFirst"
    and "report_answer iv = Some r" and "ok r"
    and "d = durationMs (deadlineMs req) (now_default iv) (now_start iv)"
    and "e = formatError B (JObj [(''type'', JStr ''TimeoutError''),
                                   (''cause'', JStr (''Function timed out after '' @ num_str d @ ''ms''))])"
  shows "errorType e = JStr ''TimeoutError'' \<and>
         errorMessage e = inspect B (JStr (''Function timed out after '' @ num_str d @ ''ms'')) \<and>
         sublist (num_str d @ ''ms'') (''Function timed out after '' @ num_str d @ ''ms'') \<and>
         (sublist (''Function timed out after '' @ num_str d @ ''ms'')
            (inspect B (JStr (''Function timed out after '' @ num_str d @ ''ms''))) \<longrightarrow>
          sublist (num_str d @ ''ms'') (errorMessage e)) \<and>
         (\<exists>q. iteration B rt l iv p = Return () q \<and>
           effects q =
             effects p @
             [(process_env p trace_var, Fetch (url_href B ''invocation/next'' rt) None),
              (Some (traceId req), Invoke l (event req)),
              (None,
               Fetch (url_href B (''invocation/'' @ requestId req @ ''/error'') rt)
                 (Some \<lparr>http_method = ''POST'',
                        body = stringify B (LambdaError_json e),
                        headers = [(''Lambda-Runtime-Function-Error-Type'', JStr ''TimeoutError''),
                                   (''Content-Type'',
                                    JStr ''application/vnd.aws.lambda.error+json'')]\<rparr>))] \<and>
           process_env q trace_var = None \<and>
           serve B rt l (iv # rest) p = serve B rt l rest q \<and>
           (\<exists>tail. effects (proc_of (serve B rt l (iv # rest) p)) =
              effects q @ (None, Fetch (url_href B ''invocation/next'' rt) None) # tail))"
proof -
  have p1: "p1 = emit (Fetch (url_href B ''invocation/next'' rt) None) p"
    using assms(1) by (rule receive_Return_state)
  have ty: "errorType e = JStr ''TimeoutError''"
    and msg: "errorMessage e = inspect B (JStr (''Function timed out after '' @ num_str d @ ''ms''))"
    by (simp_all add: assms(6))
  have sub: "sublist (num_str d @ ''ms'') (''Function timed out after '' @ num_str d @ ''ms'')"
    using sublist_infix [of "num_str d @ ''ms''" "''Function timed out after ''" "[]"] by simp
  have emb: "sublist (''Function timed out after '' @ num_str d @ ''ms'')
            (inspect B (JStr (''Function timed out after '' @ num_str d @ ''ms''))) \<longrightarrow>
          sublist (num_str d @ ''ms'') (errorMessage e)"
    unfolding msg using sub by (blast intro: sublist_order.order.trans)
  define q where "q = emit (Fetch (url_href B (''invocation/'' @ requestId req @ ''/error'') rt)
                 (Some \<lparr>http_method = ''POST'',
                        body = stringify B (LambdaError_json e),
                        headers = [(''Lambda-Runtime-Function-Error-Type'', JStr ''TimeoutError''),
                                   (''Content-Type'',
                                    JStr ''application/vnd.aws.lambda.error+json'')]\<rparr>))
              (resetTraceId (emit (Invoke l (event req)) (setTraceId (traceId req) p1)))"
  have it: "iteration B rt l iv p = Return () q"
    unfolding iteration_timeout [OF assms(1,2)] sendInvocationError_def q_def
    by (simp add: assms(3) sendBaseError_ok [OF _ assms(4)] assms(5) assms(6))
  have env: "process_env q trace_var = None"
    by (simp add: q_def)
  have sv: "serve B rt l (iv # rest) p = serve B rt l rest q"
    by (simp add: it)
  obtain tail where "effects (proc_of (serve B rt l rest q)) =
      effects q @ (process_env q trace_var, Fetch (url_href B ''invocation/next'' rt) None) # tail"
    using serve_polls_first [of B rt l rest q] by auto
  with env sv have nx: "\<exists>tail. effects (proc_of (serve B rt l (iv # rest) p)) =
              effects q @ (None, Fetch (url_href B ''invocation/next'' rt) None) # tail"
    by simp
  have ef: "effects q =
             effects p @
             [(process_env p trace_var, Fetch (url_href B ''invocation/next'' rt) None),
              (Some (traceId req), Invoke l (event req)),
              (None,
               Fetch (url_href B (''invocation/'' @ requestId req @ ''/error'') rt)
                 (Some \<lparr>http_method = ''POST'',
                        body = stringify B (LambdaError_json e),
                        headers = [(''Lambda-Runtime-Function-Error-Type'', JStr ''TimeoutError''),
                                   (''Content-Type'',
                                    JStr ''application/vnd.aws.lambda.error+json'')]\<rparr>))]"
    by (simp add: q_def p1)
  from it ef env sv nx have "\<exists>q. iteration B rt l iv p = Return () q \<and>
           effects q =
             effects p @
             [(process_env p trace_var, Fetch (url_href B ''invocation/next'' rt) None),
              (Some (traceId req), Invoke l (event req)),
              (None,
               Fetch (url_href B (''invocation/'' @ requestId req @ ''/error'') rt)
                 (Some \<lparr>http_method = ''POST'',
                        body = stringify B (LambdaError_json e),
                        headers = [(''Lambda-Runtime-Function-Error-Type'', JStr ''TimeoutError''),
                                   (''Content-Type'',
                                    JStr ''application/vnd.aws.lambda.error+json'')]\<rparr>))] \<and>
           process_env q trace_var = None \<and>
           serve B rt l (iv # rest) p = serve B rt l rest q \<and>
           (\<exists>tail. effects (proc_of (serve B rt l (iv # rest) p)) =
              effects q @ (None, Fetch (url_href B ''invocation/next'' rt) None) # tail)"
    by blast
  with ty msg sub emb show ?thesis by blast
qed

theorem timeout_reported_witness:
  "errorMessage (formatError sample_builtins
      (JObj [(''type'', JStr ''TimeoutError''),
             (''cause'', JStr ''Function timed out after 59999ms'')])) =
     [CHR 0x22] @ ''Function timed out after 59999ms'' @ [CHR 0x22] \<and>
   (\<exists>q. iteration sample_builtins sample_url (JFunction 0)
          (sample_invocation sample_poll TimerFirst (Some (answer 202 [] []))) sample_proc
          = Return () q \<and>
        effects q =
          [(None, Fetch (sample_url @ ''invocation/next'') None),
           (Some ''t1'', Invoke (JFunction 0) (JObj [])),
           (None,
            Fetch (sample_url @ ''invocation/r1/error'')
              (Some \<lparr>http_method = ''POST'', body = Some ''{}'',
                     headers = [(''Lambda-Runtime-Function-Error-Type'', JStr ''TimeoutError''),
                                (''Content-Type'',
                                 JStr ''application/vnd.aws.lambda.error+json'')]\<rparr>))] \<and>
        process_env q trace_var = None)"
proof -
  have n: "num_str 59999 = ''59999''"
    by (simp add: num_str_def str_nat_small str_nat_large)
  have d: "durationMs (deadlineMs sample_request)
             (now_default (sample_invocation sample_poll TimerFirst (Some (answer 202 [] []))))
             (now_start (sample_invocation sample_poll TimerFirst (Some (answer 202 [] [])))) = 59999"
    by (simp add: sample_invocation_simps sample_request_simps durationMs_def)
  have s: "stringify sample_builtins (LambdaError_json e) = Some ''{}''" for e
    by (simp add: LambdaError_json_def sample_builtins_def)
  note t = timeout_reported
         [where B = sample_builtins and rt = sample_url and l = "JFunction 0"
            and iv = "sample_invocation sample_poll TimerFirst (Some (answer 202 [] []))"
            and p = sample_proc and req = sample_request and ?p1.0 = sample_polled
            and r = "answer 202 [] []" and rest = "[]" and d = 59999
            and e = "formatError sample_builtins
                       (JObj [(''type'', JStr ''TimeoutError''),
                              (''cause'', JStr (''Function timed out after '' @ num_str 59999 @ ''ms''))])",
          OF sample_invocation_simps(1) sample_invocation_simps(2) sample_invocation_simps(3)
             ok_answer(1) d [symmetric] refl]
  have m: "errorMessage (formatError sample_builtins
      (JObj [(''type'', JStr ''TimeoutError''),
             (''cause'', JStr (''Function timed out after '' @ num_str 59999 @ ''ms''))])) =
     inspect sample_builtins (JStr (''Function timed out after '' @ num_str 59999 @ ''ms''))"
    by (rule t [THEN conjunct2, THEN conjunct1])
  have "\<exists>q. iteration sample_builtins sample_url (JFunction 0)
          (sample_invocation sample_poll TimerFirst (Some (answer 202 [] []))) sample_proc
          = Return () q \<and>
        effects q =
          [(None, Fetch (sample_url @ ''invocation/next'') None),
           (Some ''t1'', Invoke (JFunction 0) (JObj [])),
           (None,
            Fetch (sample_url @ ''invocation/r1/error'')
              (Some \<lparr>http_method = ''POST'', body = Some ''{}'',
                     headers = [(''Lambda-Runtime-Function-Error-Type'', JStr ''TimeoutError''),
                                (''Content-Type'',
                                 JStr ''application/vnd.aws.lambda.error+json'')]\<rparr>))] \<and>
        process_env q trace_var = None"
    using t [THEN conjunct2, THEN conjunct2, THEN conjunct2, THEN conjunct2]
    apply (elim exE conjE)
    subgoal for q
      by (intro exI [of _ q]) (simp add: sample_request_simps sample_facts s)
    done
  moreover from m have "errorMessage (formatError sample_builtins
      (JObj [(''type'', JStr ''TimeoutError''),
             (''cause'', JStr ''Function timed out after 59999ms'')])) =
     [CHR 0x22] @ ''Function timed out after 59999ms'' @ [CHR 0x22]"
    by (simp add: n sample_builtins_def)
  ultimately show ?thesis by (rule conjI [rotated])
qed

lemma fetch_failure_trace_ok: "list_all trace_ok (fetch_failure t a)"
  by (simp add: fetch_failure_def split: option.splits)

lemma receive_failure_effects:
  assumes "\<forall>req p1. receiveRequest B rt (Some a) p \<noteq> Return req p1"
  shows "\<exists>c. effects (proc_of (receiveRequest B rt (Some a) p)) =
           effects p @ [(process_env p trace_var, Fetch (url_href B ''invocation/next'' rt) None),
                        (process_env p trace_var, ConsoleError c)]"
  using assms
  by (cases "ok a")
     (auto simp: receiveRequest_def fetchNextInvocation_def lambdaFetch_not_ok lambdaFetch_ok
                 exit_def split: option.splits sum.splits)

lemma iteration_receive_failure:
  assumes "\<forall>req p1. receiveRequest B rt (Some (next_answer iv)) p \<noteq> Return req p1"
  shows "proc_of (iteration B rt l iv p) = proc_of (receiveRequest B rt (Some (next_answer iv)) p)"
  using assms
  by (cases "receiveRequest B rt (Some (next_answer iv)) p") (simp_all add: iteration_def)

lemma iteration_effects:
  assumes "receiveRequest B rt (Some (next_answer iv)) p = Return req p1"
    and "\<forall>cause. race iv (event req)
                    (durationMs (deadlineMs req) (now_default iv) (now_start iv))
                  = HandlerRejected cause \<longrightarrow>
                  header_value_ok B (errorType (formatError B (caught cause)))"
  shows "\<exists>t opts.
           effects (proc_of (iteration B rt l iv p)) =
             effects p @
             [(process_env p trace_var, Fetch (url_href B ''invocation/next'' rt) None),
              (Some (traceId req), Invoke l (event req)),
              (t, Fetch (url_href B
                    (''invocation/'' @ requestId req @
                       (case race iv (event req)
                               (durationMs (deadlineMs req) (now_default iv) (now_start iv)) of
                          HandlerResolved data \<Rightarrow> ''/response'' | _ \<Rightarrow> ''/error'')) rt)
                    (Some opts))]
             @ fetch_failure t (report_answer iv) \<and>
           t = (case race iv (event req)
                       (durationMs (deadlineMs req) (now_default iv) (now_start iv)) of
                  HandlerRejected cause \<Rightarrow> Some (traceId req)
                | _ \<Rightarrow> None)"
proof -
  have p1: "p1 = emit (Fetch (url_href B ''invocation/next'' rt) None) p"
    using assms(1) by (rule receive_Return_state)
  show ?thesis
  proof (cases "race iv (event req) (durationMs (deadlineMs req) (now_default iv) (now_start iv))")
    case (HandlerResolved data)
    show ?thesis
      unfolding iteration_resolved [OF assms(1) HandlerResolved] sendInvocationResponse_def
        HandlerResolved
      by (simp add: lambdaFetch_effects p1)
  next
    case (HandlerRejected cause)
    with assms(2) have h: "header_value_ok B (errorType (formatError B (caught cause)))"
      by simp
    show ?thesis
      unfolding iteration_rejected [OF assms(1) HandlerRejected] sendInvocationError_def
        HandlerRejected
      by (simp add: sendBaseError_effects [OF h] p1)
  next
    case TimerFirst
    show ?thesis
      unfolding iteration_timeout [OF assms(1) TimerFirst] sendInvocationError_def TimerFirst
      by (simp add: sendBaseError_effects p1)
  qed
qed

lemma iteration_refused:
  assumes "receiveRequest B rt (Some (next_answer iv)) p = Return req p1"
    and "race iv (event req) (durationMs (deadlineMs req) (now_default iv) (now_start iv)) = HandlerRejected cause"
    and "\<not> header_value_ok B (errorType (formatError B (caught cause)))"
  shows "iteration B rt l iv p =
           Uncaught (resetTraceId (emit (Invoke l (event req)) (setTraceId (traceId req) p1)))"
  unfolding iteration_rejected [OF assms(1,2)] sendInvocationError_def
  by (simp add: sendBaseError_refused [OF assms(3)])

lemma iteration_calls_handler:
  assumes "receiveRequest B rt (Some (next_answer iv)) p = Return req p1"
  shows "\<exists>tail.
           effects (proc_of (iteration B rt l iv p)) =
             effects p @
             [(process_env p trace_var, Fetch (url_href B ''invocation/next'' rt) None),
              (Some (traceId req), Invoke l (event req))] @ tail \<and>
           list_all trace_ok tail"
proof (cases "\<forall>cause. race iv (event req)
                    (durationMs (deadlineMs req) (now_default iv) (now_start iv))
                  = HandlerRejected cause \<longrightarrow>
                  header_value_ok B (errorType (formatError B (caught cause)))")
  case True
  from iteration_effects [OF assms True, of l] fetch_failure_trace_ok show ?thesis
    by auto
next
  case False
  then obtain cause where c: "race iv (event req) (durationMs (deadlineMs req) (now_default iv) (now_start iv)) = HandlerRejected cause"
    and h: "\<not> header_value_ok B (errorType (formatError B (caught cause)))"
    by blast
  have p1: "p1 = emit (Fetch (url_href B ''invocation/next'' rt) None) p"
    using assms by (rule receive_Return_state)
  show ?thesis
    unfolding iteration_refused [OF assms c h] by (simp add: p1)
qed

lemma iteration_Return_cleared:
  assumes "iteration B rt l iv p = Return u q \<or> iteration B rt l iv p = Uncaught q"
  shows "process_env q trace_var = None"
proof (cases "receiveRequest B rt (Some (next_answer iv)) p")
  case (Exited c q')
  with assms show ?thesis by (simp add: iteration_def)
next
  case (Uncaught q')
  then show ?thesis
    by (cases "ok (next_answer iv)")
       (auto simp: receiveRequest_def fetchNextInvocation_def lambdaFetch_not_ok lambdaFetch_ok
                   exit_def split: option.splits sum.splits)
next
  case (Pending q')
  with assms show ?thesis by (simp add: iteration_def)
next
  case (Return req p1)
  show ?thesis
  proof (cases "race iv (event req) (durationMs (deadlineMs req) (now_default iv) (now_start iv))")
    case (HandlerResolved data)
    from assms show ?thesis
      unfolding iteration_resolved [OF Return HandlerResolved] sendInvocationResponse_def
      by (cases "report_answer iv")
         (auto simp: lambdaFetch_def Let_def exit_def split: if_splits)
  next
    case (HandlerRejected cause)
    from assms show ?thesis
      unfolding iteration_rejected [OF Return HandlerRejected] sendInvocationError_def
        sendBaseError_def
      by (cases "report_answer iv")
         (auto simp: lambdaFetch_def Let_def exit_def split: if_splits)
  next
    case TimerFirst
    from assms show ?thesis
      unfolding iteration_timeout [OF Return TimerFirst] sendInvocationError_def
        sendBaseError_def
      by (cases "report_answer iv")
         (auto simp: lambdaFetch_def Let_def exit_def split: if_splits)
  qed
qed

lemma iteration_trace_ok:
  assumes "list_all trace_ok (effects p)" and "process_env p trace_var = None"
  shows "list_all trace_ok (effects (proc_of (iteration B rt l iv p)))"
proof (cases "\<exists>req p1. receiveRequest B rt (Some (next_answer iv)) p = Return req p1")
  case False
  then have n: "\<forall>req p1. receiveRequest B rt (Some (next_answer iv)) p \<noteq> Return req p1"
    by simp
  from receive_failure_effects [OF n] assms show ?thesis
    unfolding iteration_receive_failure [OF n] by auto
next
  case True
  then obtain req p1 where r: "receiveRequest B rt (Some (next_answer iv)) p = Return req p1"
    by blast
  from iteration_calls_handler [OF r, of l] assms show ?thesis
    by auto
qed

lemma serve_trace_ok:
  assumes "list_all trace_ok (effects p)" and "process_env p trace_var = None"
  shows "list_all trace_ok (effects (proc_of (serve B rt l ivs p)))"
  using assms
proof (induction ivs arbitrary: p)
  case Nil
  then show ?case
    by (simp add: fetchNextInvocation_def lambdaFetch_unanswered)
next
  case (Cons iv rest)
  have i: "list_all trace_ok (effects (proc_of (iteration B rt l iv p)))"
    using Cons.prems by (rule iteration_trace_ok)
  show ?case
  proof (cases "iteration B rt l iv p")
    case (Return u q)
    then have "iteration B rt l iv p = Return u q \<or> iteration B rt l iv p = Uncaught q"
      by simp
    then have "process_env q trace_var = None"
      by (rule iteration_Return_cleared)
    moreover have "list_all trace_ok (effects q)"
      using i Return by simp
    ultimately have "list_all trace_ok (effects (proc_of (serve B rt l rest q)))"
      by (rule Cons.IH [rotated])
    with Return show ?thesis by simp
  qed (use i in simp_all)
qed

lemma iteration_cleared_before_report:
  assumes "receiveRequest B rt (Some (next_answer iv)) p = Return req p1"
    and "\<forall>cause. race iv (event req) (durationMs (deadlineMs req) (now_default iv) (now_start iv))
           \<noteq> HandlerRejected cause"
  shows "process_env (proc_of (iteration B rt l iv p)) trace_var = None"
proof (cases "race iv (event req) (durationMs (deadlineMs req) (now_default iv) (now_start iv))")
  case (HandlerResolved data)
  show ?thesis
    unfolding iteration_resolved [OF assms(1) HandlerResolved] sendInvocationResponse_def
    by simp
next
  case (HandlerRejected cause)
  with assms(2) show ?thesis by simp
next
  case TimerFirst
  show ?thesis
    unfolding iteration_timeout [OF assms(1) TimerFirst] sendInvocationError_def
      sendBaseError_def Let_def
    by simp
qed

section \<open>Trace-correlation variable\<close>

text \<open>
  Claim C10, as stated: the variable is cleared unconditionally on every exit path,
  thrown failure included. On a thrown failure the \<open>finally\<close> block runs after the
  \<open>catch\<close> block, which sends the error report; when the host answers that report with
  status 500, \<open>lambdaFetch\<close> exits inside the \<open>catch\<close> block and the process ends with
  the variable still set to the trace id of the invocation.
\<close>

theorem trace_slot_left_set_counterexample:
  "ended (iteration sample_builtins sample_url (JFunction 0)
            (sample_invocation sample_poll (HandlerRejected (JStr ''oops''))
               (Some (answer 500 [] []))) sample_proc) \<and>
   process_env
     (proc_of (iteration sample_builtins sample_url (JFunction 0)
                 (sample_invocation sample_poll (HandlerRejected (JStr ''oops''))
                    (Some (answer 500 [] []))) sample_proc)) trace_var = Some ''t1''"
proof -
  have c: "caught (JStr ''oops'') = JObj [(''type'', JStr ''UnknownError''), (''cause'', JStr ''oops'')]"
    by (simp add: caught_def isSerializableError_def)
  show ?thesis
    unfolding iteration_rejected [OF sample_invocation_simps(1) sample_invocation_simps(2)]
      sendInvocationError_def sendBaseError_def Let_def sample_invocation_simps c
    by (simp add: lambdaFetch_not_ok [OF _ ok_answer(2)] sample_request_simps)
qed

text \<open>
  Claim C10, amended. In every turn of the loop that received a request, the handler is
  called with the trace-correlation variable set to the trace id of that request. The
  variable is cleared on every path on which the code of the runtime keeps running: on
  success and on timeout before the report is sent, on a thrown failure once the error
  report has returned or has thrown. So whenever a turn hands control back to the loop
  the variable is absent, and over a whole run that starts with the variable absent
  every poll is made with the variable absent and every call of the handler with the
  variable set. A process that exits inside the error report of a thrown failure, on a
  non-success answer, ends with the variable still set.
\<close>

theorem trace_slot_discipline:
  "(receiveRequest B rt (Some (next_answer iv)) p = Return req p1 \<longrightarrow>
      (\<exists>tail.
         effects (proc_of (iteration B rt l iv p)) =
           effects p @
           [(process_env p trace_var, Fetch (url_href B ''invocation/next'' rt) None),
            (Some (traceId req), Invoke l (event req))] @ tail \<and>
         list_all trace_ok tail)) \<and>
   (receiveRequest B rt (Some (next_answer iv)) p = Return req p1 \<and>
    (\<forall>cause. race iv (event req)
                   (durationMs (deadlineMs req) (now_default iv) (now_start iv))
                 = HandlerRejected cause \<longrightarrow>
                 header_value_ok B (errorType (formatError B (caught cause)))) \<longrightarrow>
      (\<exists>t opts.
         effects (proc_of (iteration B rt l iv p)) =
           effects p @
           [(process_env p trace_var, Fetch (url_href B ''invocation/next'' rt) None),
            (Some (traceId req), Invoke l (event req)),
            (t, Fetch (url_href B
                  (''invocation/'' @ requestId req @
                     (case race iv (event req)
                             (durationMs (deadlineMs req) (now_default iv) (now_start iv)) of
                        HandlerResolved data \<Rightarrow> ''/response'' | _ \<Rightarrow> ''/error'')) rt)
                  (Some opts))]
           @ fetch_failure t (report_answer iv) \<and>
         t = (case race iv (event req)
                     (durationMs (deadlineMs req) (now_default iv) (now_start iv)) of
                HandlerRejected cause \<Rightarrow> Some (traceId req)
              | _ \<Rightarrow> None))) \<and>
   (receiveRequest B rt (Some (next_answer iv)) p = Return req p1 \<and>
    (\<forall>cause. race iv (event req) (durationMs (deadlineMs req) (now_default iv) (now_start iv))
           \<noteq> HandlerRejected cause) \<longrightarrow>
      process_env (proc_of (iteration B rt l iv p)) trace_var = None) \<and>
   (iteration B rt l iv p = Return u q \<or> iteration B rt l iv p = Uncaught q \<longrightarrow>
      process_env q trace_var = None) \<and>
   (list_all trace_ok (effects p) \<and> process_env p trace_var = None \<longrightarrow>
      list_all trace_ok (effects (proc_of (serve B rt l ivs p)))) \<and>
   (receiveRequest B rt (Some (next_answer iv)) p = Return req p1 \<and>
    race iv (event req) (durationMs (deadlineMs req) (now_default iv) (now_start iv)) = HandlerRejected thrown \<and>
    header_value_ok B (errorType (formatError B (caught thrown))) \<and>
    report_answer iv = Some r \<and> \<not> ok r \<longrightarrow>
      (\<exists>q'. iteration B rt l iv p = Exited 1 q' \<and>
            process_env q' trace_var = Some (traceId req)))"
proof (intro conjI impI)
  assume a: "receiveRequest B rt (Some (next_answer iv)) p = Return req p1 \<and>
    race iv (event req) (durationMs (deadlineMs req) (now_default iv) (now_start iv)) = HandlerRejected thrown \<and>
    header_value_ok B (errorType (formatError B (caught thrown))) \<and>
    report_answer iv = Some r \<and> \<not> ok r"
  then have r: "receiveRequest B rt (Some (next_answer iv)) p = Return req p1"
    and c: "race iv (event req) (durationMs (deadlineMs req) (now_default iv) (now_start iv)) = HandlerRejected thrown"
    and h: "header_value_ok B (errorType (formatError B (caught thrown)))"
    and n: "\<not> ok r" and ra: "report_answer iv = Some r"
    by simp_all
  show "\<exists>q'. iteration B rt l iv p = Exited 1 q' \<and>
            process_env q' trace_var = Some (traceId req)"
    unfolding iteration_rejected [OF r c] sendInvocationError_def sendBaseError_def Let_def ra
    using h n by (simp add: lambdaFetch_not_ok)
next
  assume "receiveRequest B rt (Some (next_answer iv)) p = Return req p1"
  then show "\<exists>tail.
         effects (proc_of (iteration B rt l iv p)) =
           effects p @
           [(process_env p trace_var, Fetch (url_href B ''invocation/next'' rt) None),
            (Some (traceId req), Invoke l (event req))] @ tail \<and>
         list_all trace_ok tail"
    by (rule iteration_calls_handler)
next
  assume "receiveRequest B rt (Some (next_answer iv)) p = Return req p1 \<and>
    (\<forall>cause. race iv (event req)
                   (durationMs (deadlineMs req) (now_default iv) (now_start iv))
                 = HandlerRejected cause \<longrightarrow>
                 header_value_ok B (errorType (formatError B (caught cause))))"
  then show "\<exists>t opts.
         effects (proc_of (iteration B rt l iv p)) =
           effects p @
           [(process_env p trace_var, Fetch (url_href B ''invocation/next'' rt) None),
            (Some (traceId req), Invoke l (event req)),
            (t, Fetch (url_href B
                  (''invocation/'' @ requestId req @
                     (case race iv (event req)
                             (durationMs (deadlineMs req) (now_default iv) (now_start iv)) of
                        HandlerResolved data \<Rightarrow> ''/response'' | _ \<Rightarrow> ''/error'')) rt)
                  (Some opts))]
           @ fetch_failure t (report_answer iv) \<and>
         t = (case race iv (event req)
                     (durationMs (deadlineMs req) (now_default iv) (now_start iv)) of
                HandlerRejected cause \<Rightarrow> Some (traceId req)
              | _ \<Rightarrow> None)"
    using iteration_effects [of B rt iv p req p1 l] by (elim conjE) assumption
next
  assume "receiveRequest B rt (Some (next_answer iv)) p = Return req p1 \<and>
    (\<forall>cause. race iv (event req) (durationMs (deadlineMs req) (now_default iv) (now_start iv))
           \<noteq> HandlerRejected cause)"
  then show "process_env (proc_of (iteration B rt l iv p)) trace_var = None"
    using iteration_cleared_before_report [of B rt iv p req p1 l] by (elim conjE) assumption
next
  assume "iteration B rt l iv p = Return u q \<or> iteration B rt l iv p = Uncaught q"
  then show "process_env q trace_var = None"
    by (rule iteration_Return_cleared)
next
  assume "list_all trace_ok (effects p) \<and> process_env p trace_var = None"
  then show "list_all trace_ok (effects (proc_of (serve B rt l ivs p)))"
    using serve_trace_ok [of p B rt l ivs] by (elim conjE) assumption
qed

theorem trace_slot_discipline_witness:
  "process_env (proc_of (iteration sample_builtins sample_url (JFunction 0)
       (sample_invocation sample_poll (HandlerResolved JNull) (Some (answer 500 [] [])))
       sample_proc)) trace_var = None \<and>
   (\<exists>q. iteration sample_builtins sample_url (JFunction 0)
          (sample_invocation sample_poll (HandlerRejected JNull) (Some (answer 202 [] [])))
          sample_proc = Return () q \<and>
        process_env q trace_var = None) \<and>
   list_all trace_ok (effects (proc_of (serve sample_builtins sample_url (JFunction 0)
     [sample_invocation sample_poll (HandlerRejected JNull) (Some (answer 202 [] [])),
      sample_invocation sample_poll TimerFirst (Some (answer 202 [] []))] sample_proc)))"
proof -
  have a: "process_env (proc_of (iteration sample_builtins sample_url (JFunction 0)
       (sample_invocation sample_poll (HandlerResolved JNull) (Some (answer 500 [] [])))
       sample_proc)) trace_var = None"
    using trace_slot_discipline
            [where B = sample_builtins and rt = sample_url and l = "JFunction 0"
               and iv = "sample_invocation sample_poll (HandlerResolved JNull)
                           (Some (answer 500 [] []))"
               and p = sample_proc and req = sample_request and ?p1.0 = sample_polled,
             THEN conjunct2, THEN conjunct2, THEN conjunct1]
    by (simp add: sample_invocation_simps)
  have c0: "caught JNull = JObj [(''type'', JStr ''UnknownError''), (''cause'', JNull)]"
    by (simp add: caught_def isSerializableError_def)
  obtain q where q: "iteration sample_builtins sample_url (JFunction 0)
          (sample_invocation sample_poll (HandlerRejected JNull) (Some (answer 202 [] [])))
          sample_proc = Return () q"
    unfolding iteration_rejected [OF sample_invocation_simps(1) sample_invocation_simps(2)]
      sendInvocationError_def sample_invocation_simps c0
    by (simp add: sendBaseError_ok [OF _ ok_answer(1)])
  have b: "process_env q trace_var = None"
    using trace_slot_discipline
            [where B = sample_builtins and rt = sample_url and l = "JFunction 0"
               and iv = "sample_invocation sample_poll (HandlerRejected JNull)
                           (Some (answer 202 [] []))"
               and p = sample_proc and u = "()" and q = q,
             THEN conjunct2, THEN conjunct2, THEN conjunct2, THEN conjunct1] q
    by simp
  have c: "list_all trace_ok (effects (proc_of (serve sample_builtins sample_url (JFunction 0)
     [sample_invocation sample_poll (HandlerRejected JNull) (Some (answer 202 [] [])),
      sample_invocation sample_poll TimerFirst (Some (answer 202 [] []))] sample_proc)))"
    using trace_slot_discipline
            [where B = sample_builtins and rt = sample_url and l = "JFunction 0"
               and p = sample_proc
               and ivs = "[sample_invocation sample_poll (HandlerRejected JNull)
                             (Some (answer 202 [] [])),
                           sample_invocation sample_poll TimerFirst (Some (answer 202 [] []))]",
             THEN conjunct2, THEN conjunct2, THEN conjunct2, THEN conjunct2]
    by (simp add: sample_facts)
  from a q b c show ?thesis by simp
qed

lemma throwError_init_effects:
  assumes "header_value_ok B (errorType (formatError B err))"
  shows "effects (proc_of (throwError B rt err None ans p :: 'a result)) =
     effects p @
     [(process_env p trace_var, ConsoleError [err]),
      (process_env p trace_var,
       Fetch (url_href B ''init/error'' rt)
         (Some \<lparr>http_method = ''POST'',
                body = stringify B (LambdaError_json (formatError B err)),
                headers = [(''Lambda-Runtime-Function-Error-Type'', errorType (formatError B err)),
                           (''Content-Type'', JStr ''application/vnd.aws.lambda.error+json'')]\<rparr>))]
     @ exit_line (process_env p trace_var) ans"
proof (cases ans)
  case None
  with assms show ?thesis
    by (simp add: throwError_def sendInitError_def sendBaseError_def Let_def
                  lambdaFetch_unanswered exit_line_def)
next
  case (Some r)
  with assms show ?thesis
    by (cases "ok r")
       (simp_all add: throwError_def sendInitError_def sendBaseError_def Let_def
                      lambdaFetch_ok lambdaFetch_not_ok exit_line_def exit_def fetch_failure_def)
qed

lemma throwError_never_returns:
  "(throwError B rt err rid ans p :: 'a result) \<noteq> Return x q"
  by (cases rid; cases ans)
     (auto simp: throwError_def sendInitError_def sendInvocationError_def sendBaseError_def
                 Let_def lambdaFetch_def exit_def and_then_def split: if_splits)

lemma throwError_exits:
  "header_value_ok B (errorType (formatError B err)) \<Longrightarrow>
   \<exists>q. (throwError B rt err None (Some r) p :: 'a result) = Exited 1 q"
  by (cases "ok r")
     (simp_all add: throwError_def sendInitError_def sendBaseError_def Let_def
                    lambdaFetch_ok lambdaFetch_not_ok exit_def)

lemma env_present: "process_env p name = Some v \<Longrightarrow> env name fallback p = Return v p"
  by (simp add: env_def)

lemma typeof_function: "typeof v = ''function'' \<longleftrightarrow> (\<exists>f. v = JFunction f)"
  by (cases v) auto

lemma init_loaded:
  assumes "process_env p ''_HANDLER'' = Some h"
    and "process_env p ''LAMBDA_TASK_ROOT'' = Some root"
    and "import_module W (root @ ''/'' @ substring h 0 (lastIndexOf h CHR ''.'')) = Loaded exports"
  shows "init B W rt p =
           (if typeof (nullish (export_of exports ''default'')
                         (export_of exports (substring_from h (lastIndexOf h CHR ''.'' + 1))))
               \<noteq> ''function''
            then throwError B rt
                   (JObj [(''type'',
                           JStr (if nullish (export_of exports ''default'')
                                      (export_of exports (substring_from h (lastIndexOf h CHR ''.'' + 1)))
                                    = JUndefined
                                 then ''MethodDoesNotExist'' else ''MethodIsNotAFunction'')),
                          (''cause'',
                           JStr (substring h 0 (lastIndexOf h CHR ''.'')
                                 @ '' does not an function export ''
                                 @ quote (substring_from h (lastIndexOf h CHR ''.'' + 1))
                                 @ '' (handler is ''
                                 @ to_string B (nullish (export_of exports ''default'')
                                      (export_of exports (substring_from h (lastIndexOf h CHR ''.'' + 1))))
                                 @ '')''))])
                   None (init_error_answer W) p
            else Return (nullish (export_of exports ''default'')
                           (export_of exports (substring_from h (lastIndexOf h CHR ''.'' + 1)))) p)"
  using assms by (simp add: init_def env_present Let_def)

lemma init_not_found:
  assumes "process_env p ''_HANDLER'' = Some h"
    and "process_env p ''LAMBDA_TASK_ROOT'' = Some root"
    and "import_module W (root @ ''/'' @ substring h 0 (lastIndexOf h CHR ''.''))
           = ImportThrows (JError n m st)"
    and "prefix ''Cannot find module'' m"
  shows "init B W rt p =
           throwError B rt
             (JObj [(''type'', JStr ''FileDoesNotExist''),
                    (''cause'', JStr (''Did not find a file named ''
                                      @ quote (substring h 0 (lastIndexOf h CHR ''.''))))])
             None (init_error_answer W) p"
  using assms by (simp add: init_def env_present Let_def)


section \<open>Handler loader\<close>

text \<open>
  Claim C5. For a module that loads, the callable is the \<open>default\<close> export unless that
  is missing or \<open>null\<close>, and the export named after the last dot of the handler
  identifier otherwise. When the resolved value is a function the loader returns it.
  When it is \<open>undefined\<close> the loader fails with kind \<open>MethodDoesNotExist\<close>, and when it is
  anything else that is not a function with kind \<open>MethodIsNotAFunction\<close>: the error is
  written to the console and posted to \<open>init/error\<close>, and the loader never returns (the
  process exits once the report is answered).
\<close>

theorem loader_resolves_callable:
  assumes "process_env p ''_HANDLER'' = Some h"
    and "process_env p ''LAMBDA_TASK_ROOT'' = Some root"
    and "fileName = substring h 0 (lastIndexOf h CHR ''.'')"
    and "moduleName = substring_from h (lastIndexOf h CHR ''.'' + 1)"
    and "import_module W (root @ ''/'' @ fileName) = Loaded exports"
    and "resolved = nullish (export_of exports ''default'') (export_of exports moduleName)"
    and "err = JObj [(''type'', JStr kind),
                     (''cause'', JStr (fileName @ '' does not an function export ''
                                       @ quote moduleName @ '' (handler is ''
                                       @ to_string B resolved @ '')''))]"
  shows "(export_of exports ''default'' \<noteq> JUndefined \<and> export_of exports ''default'' \<noteq> JNull \<longrightarrow>
            resolved = export_of exports ''default'') \<and>
         (export_of exports ''default'' = JUndefined \<or> export_of exports ''default'' = JNull \<longrightarrow>
            resolved = export_of exports moduleName) \<and>
         ((\<exists>f. resolved = JFunction f) \<longrightarrow> init B W rt p = Return resolved p) \<and>
         ((\<forall>f. resolved \<noteq> JFunction f) \<and>
          kind = (if resolved = JUndefined then ''MethodDoesNotExist''
                  else ''MethodIsNotAFunction'') \<longrightarrow>
            (\<forall>x q. init B W rt p \<noteq> Return x q) \<and>
            (\<forall>r. init_error_answer W = Some r \<longrightarrow> (\<exists>q. init B W rt p = Exited 1 q)) \<and>
            errorType (formatError B err) = JStr kind \<and>
            effects (proc_of (init B W rt p)) =
              effects p @
              [(process_env p trace_var, ConsoleError [err]),
               (process_env p trace_var,
                Fetch (url_href B ''init/error'' rt)
                  (Some \<lparr>http_method = ''POST'',
                         body = stringify B (LambdaError_json (formatError B err)),
                         headers = [(''Lambda-Runtime-Function-Error-Type'', JStr kind),
                                    (''Content-Type'',
                                     JStr ''application/vnd.aws.lambda.error+json'')]\<rparr>))]
              @ exit_line (process_env p trace_var) (init_error_answer W))"
proof -
  note i = init_loaded [OF assms(1,2) assms(5) [unfolded assms(3)], of B rt,
                        folded assms(3) assms(4), folded assms(6)]
  have a: "export_of exports ''default'' \<noteq> JUndefined \<and> export_of exports ''default'' \<noteq> JNull \<longrightarrow>
            resolved = export_of exports ''default''"
    unfolding assms(6) by (cases "export_of exports ''default''") simp_all
  have b: "export_of exports ''default'' = JUndefined \<or> export_of exports ''default'' = JNull \<longrightarrow>
            resolved = export_of exports moduleName"
    unfolding assms(6) by auto
  have c: "(\<exists>f. resolved = JFunction f) \<longrightarrow> init B W rt p = Return resolved p"
    unfolding i by (simp add: typeof_function)
  have d: "init B W rt p = throwError B rt err None (init_error_answer W) p"
    if "\<forall>f. resolved \<noteq> JFunction f"
      and "kind = (if resolved = JUndefined then ''MethodDoesNotExist''
                   else ''MethodIsNotAFunction'')"
    unfolding i assms(7) using that by (simp add: typeof_function)
  have t: "errorType (formatError B err) = JStr kind"
    unfolding assms(7) by simp
  show ?thesis
  proof (intro conjI impI)
    assume k: "(\<forall>f. resolved \<noteq> JFunction f) \<and>
          kind = (if resolved = JUndefined then ''MethodDoesNotExist''
                  else ''MethodIsNotAFunction'')"
    then have e: "init B W rt p = throwError B rt err None (init_error_answer W) p"
      using d by blast
    have hk: "header_value_ok B (errorType (formatError B err))"
      using k unfolding t by (cases "resolved = JUndefined") simp_all
    show "\<forall>x q. init B W rt p \<noteq> Return x q"
      unfolding e by (simp add: throwError_never_returns)
    show "\<forall>r. init_error_answer W = Some r \<longrightarrow> (\<exists>q. init B W rt p = Exited 1 q)"
      unfolding e using throwError_exits [OF hk] by auto
    show "effects (proc_of (init B W rt p)) =
              effects p @
              [(process_env p trace_var, ConsoleError [err]),
               (process_env p trace_var,
                Fetch (url_href B ''init/error'' rt)
                  (Some \<lparr>http_method = ''POST'',
                         body = stringify B (LambdaError_json (formatError B err)),
                         headers = [(''Lambda-Runtime-Function-Error-Type'', JStr kind),
                                    (''Content-Type'',
                                     JStr ''application/vnd.aws.lambda.error+json'')]\<rparr>))]
              @ exit_line (process_env p trace_var) (init_error_answer W)"
      unfolding e throwError_init_effects [OF hk] t ..
  qed (use a b c t in blast)+
qed

lemma sample_lambda_env:
  "process_env sample_lambda_proc ''AWS_LAMBDA_RUNTIME_API'' = Some ''127.0.0.1:9001''"
  "process_env sample_lambda_proc ''_HANDLER'' = Some ''main.handler''"
  "process_env sample_lambda_proc ''LAMBDA_TASK_ROOT'' = Some ''/var/task''"
  "process_env sample_lambda_proc trace_var = None"
  "effects sample_lambda_proc = []"
  by (simp_all add: sample_lambda_proc_def trace_var_def)

lemma sample_handler_parts:
  "''main'' = substring ''main.handler'' 0 (lastIndexOf ''main.handler'' CHR ''.'')"
  "''handler'' = substring_from ''main.handler'' (lastIndexOf ''main.handler'' CHR ''.'' + 1)"
  by (simp_all add: substring_def substring_from_def)

lemma sample_import:
  "import_module (sample_startup i a) (''/var/task'' @ ''/'' @ ''main'') = i"
  "init_error_answer (sample_startup i a) = a"
  by (simp_all add: sample_startup_def)

theorem loader_resolves_callable_witness:
  "init sample_builtins
     (sample_startup (Loaded [''default'' \<mapsto> JFunction 1, ''handler'' \<mapsto> JFunction 2]) None)
     sample_url sample_lambda_proc = Return (JFunction 1) sample_lambda_proc \<and>
   init sample_builtins (sample_startup (Loaded [''handler'' \<mapsto> JFunction 2]) None)
     sample_url sample_lambda_proc = Return (JFunction 2) sample_lambda_proc \<and>
   (\<exists>q. init sample_builtins (sample_startup (Loaded Map.empty) (Some (answer 202 [] [])))
          sample_url sample_lambda_proc = (Exited 1 q :: jsval result)) \<and>
   (\<exists>q. init sample_builtins (sample_startup (Loaded [''handler'' \<mapsto> JNum 3]) (Some (answer 202 [] [])))
          sample_url sample_lambda_proc = (Exited 1 q :: jsval result))"
proof -
  have a: "init sample_builtins
     (sample_startup (Loaded [''default'' \<mapsto> JFunction 1, ''handler'' \<mapsto> JFunction 2]) None)
     sample_url sample_lambda_proc = Return (JFunction 1) sample_lambda_proc"
    using loader_resolves_callable
            [where B = sample_builtins and rt = sample_url
               and W = "sample_startup (Loaded ([''default'' \<mapsto> JFunction 1, ''handler'' \<mapsto> JFunction 2])) (None)" and exports = "[''default'' \<mapsto> JFunction 1, ''handler'' \<mapsto> JFunction 2]",
             OF sample_lambda_env(2) sample_lambda_env(3) sample_handler_parts
                sample_import(1) refl refl,
             THEN conjunct2, THEN conjunct2, THEN conjunct1]
    by (simp add: export_of_def)
  have b: "init sample_builtins (sample_startup (Loaded [''handler'' \<mapsto> JFunction 2]) None)
     sample_url sample_lambda_proc = Return (JFunction 2) sample_lambda_proc"
    using loader_resolves_callable
            [where B = sample_builtins and rt = sample_url
               and W = "sample_startup (Loaded ([''handler'' \<mapsto> JFunction 2])) (None)" and exports = "[''handler'' \<mapsto> JFunction 2]",
             OF sample_lambda_env(2) sample_lambda_env(3) sample_handler_parts
                sample_import(1) refl refl,
             THEN conjunct2, THEN conjunct2, THEN conjunct1]
    by (simp add: export_of_def)
  have c: "\<exists>q. init sample_builtins (sample_startup (Loaded Map.empty) (Some (answer 202 [] [])))
          sample_url sample_lambda_proc = (Exited 1 q :: jsval result)"
    using loader_resolves_callable
            [where B = sample_builtins and rt = sample_url
               and W = "sample_startup (Loaded (Map.empty)) (Some (answer 202 [] []))" and exports = "Map.empty" and kind = "''MethodDoesNotExist''",
             OF sample_lambda_env(2) sample_lambda_env(3) sample_handler_parts
                sample_import(1) refl refl,
             THEN conjunct2, THEN conjunct2, THEN conjunct2]
    by (simp add: export_of_def sample_import)
  have d: "\<exists>q. init sample_builtins (sample_startup (Loaded [''handler'' \<mapsto> JNum 3]) (Some (answer 202 [] [])))
          sample_url sample_lambda_proc = (Exited 1 q :: jsval result)"
    using loader_resolves_callable
            [where B = sample_builtins and rt = sample_url
               and W = "sample_startup (Loaded ([''handler'' \<mapsto> JNum 3])) (Some (answer 202 [] []))" and exports = "[''handler'' \<mapsto> JNum 3]" and kind = "''MethodIsNotAFunction''",
             OF sample_lambda_env(2) sample_lambda_env(3) sample_handler_parts
                sample_import(1) refl refl,
             THEN conjunct2, THEN conjunct2, THEN conjunct2]
    by (simp add: export_of_def sample_import)
  from a b c d show ?thesis by (intro conjI)
qed

lemma main_init_failure:
  assumes "process_env p ''AWS_LAMBDA_RUNTIME_API'' = Some api"
    and "\<forall>x q. init B W (''http://'' @ api @ ''/2018-06-01/runtime/'') p \<noteq> Return x q"
  shows "proc_of (main B W ivs p) =
           proc_of (init B W (''http://'' @ api @ ''/2018-06-01/runtime/'') p)"
    and "main B W ivs p = Exited c q \<longleftrightarrow>
           init B W (''http://'' @ api @ ''/2018-06-01/runtime/'') p = Exited c q"
  using assms
  by (cases "init B W (''http://'' @ api @ ''/2018-06-01/runtime/'') p";
      simp add: main_def env_present Let_def)+

lemma sample_missing_init:
  "init sample_builtins
     (sample_startup (ImportThrows (JError ''Error'' ''Cannot find module /var/task/main'' None)) a)
     rt sample_lambda_proc =
   throwError sample_builtins rt
     (JObj [(''type'', JStr ''FileDoesNotExist''),
            (''cause'', JStr (''Did not find a file named '' @ quote ''main''))])
     None a sample_lambda_proc"
proof -
  have i: "import_module
             (sample_startup (ImportThrows (JError ''Error'' ''Cannot find module /var/task/main'' None)) a)
             (''/var/task'' @ ''/'' @ substring ''main.handler'' 0 (lastIndexOf ''main.handler'' CHR ''.''))
           = ImportThrows (JError ''Error'' ''Cannot find module /var/task/main'' None)"
    unfolding sample_handler_parts(1) [symmetric] by (rule sample_import)
  have p: "prefix ''Cannot find module'' ''Cannot find module /var/task/main''"
    by (simp add: prefix_code)
  show ?thesis
    using init_not_found [OF sample_lambda_env(2) sample_lambda_env(3) i p, of sample_builtins rt]
    unfolding sample_handler_parts(1) [symmetric] sample_import .
qed


section \<open>Module not found\<close>

text \<open>
  Claim C6, as stated: the message of the \<open>FileDoesNotExist\<close> failure includes the
  attempted path. The loader imports \<open><task root>/<module>\<close> but its message names only
  the module: with task root \<open>/var/task\<close> and handler \<open>main.handler\<close> the import of
  \<open>/var/task/main\<close> fails and the reported message is the rendering of
  \<open>Did not find a file named 'main'\<close>, which does not contain \<open>/var/task/main\<close>.
\<close>

theorem missing_module_message_counterexample:
  "effects (proc_of (main sample_builtins
      (sample_startup (ImportThrows (JError ''Error'' ''Cannot find module /var/task/main'' None))
         (Some (answer 202 [] [])))
      [] sample_lambda_proc)) =
     [(None, ConsoleError [JObj [(''type'', JStr ''FileDoesNotExist''),
                                 (''cause'', JStr (''Did not find a file named '' @ quote ''main''))]]),
      (None,
       Fetch ''http://127.0.0.1:9001/2018-06-01/runtime/init/error''
         (Some \<lparr>http_method = ''POST'',
                body = stringify sample_builtins
                         (LambdaError_json
                            \<lparr>errorType = JStr ''FileDoesNotExist'',
                             errorMessage = [CHR 0x22] @ ''Did not find a file named ''
                                            @ quote ''main'' @ [CHR 0x22],
                             stackTrace = None\<rparr>),
                headers = [(''Lambda-Runtime-Function-Error-Type'', JStr ''FileDoesNotExist''),
                           (''Content-Type'', JStr ''application/vnd.aws.lambda.error+json'')]\<rparr>)),
      (None, ConsoleError [])] \<and>
   \<not> sublist ''/var/task/main''
       ([CHR 0x22] @ ''Did not find a file named '' @ quote ''main'' @ [CHR 0x22])"
proof -
  have nr: "\<forall>x q. init sample_builtins
      (sample_startup (ImportThrows (JError ''Error'' ''Cannot find module /var/task/main'' None))
         (Some (answer 202 [] [])))
      (''http://'' @ ''127.0.0.1:9001'' @ ''/2018-06-01/runtime/'') sample_lambda_proc \<noteq> Return x q"
    unfolding sample_missing_init by (simp add: throwError_never_returns)
  have i: "inspect sample_builtins (JStr s) = [CHR 0x22] @ s @ [CHR 0x22]" for s
    by (simp add: sample_builtins_def)
  have e: "exit_line None (Some (answer 202 [] [])) = [(None, ConsoleError [])]"
    by (simp add: exit_line_def ok_answer)
  have "effects (proc_of (main sample_builtins
      (sample_startup (ImportThrows (JError ''Error'' ''Cannot find module /var/task/main'' None))
         (Some (answer 202 [] [])))
      [] sample_lambda_proc)) =
     [(None, ConsoleError [JObj [(''type'', JStr ''FileDoesNotExist''),
                                 (''cause'', JStr (''Did not find a file named '' @ quote ''main''))]]),
      (None,
       Fetch ''http://127.0.0.1:9001/2018-06-01/runtime/init/error''
         (Some \<lparr>http_method = ''POST'',
                body = stringify sample_builtins
                         (LambdaError_json
                            \<lparr>errorType = JStr ''FileDoesNotExist'',
                             errorMessage = [CHR 0x22] @ ''Did not find a file named ''
                                            @ quote ''main'' @ [CHR 0x22],
                             stackTrace = None\<rparr>),
                headers = [(''Lambda-Runtime-Function-Error-Type'', JStr ''FileDoesNotExist''),
                           (''Content-Type'', JStr ''application/vnd.aws.lambda.error+json'')]\<rparr>)),
      (None, ConsoleError [])]"
    unfolding main_init_failure(1) [OF sample_lambda_env(1) nr] sample_missing_init
    by (simp add: throwError_init_effects sample_lambda_env i e) (simp add: sample_builtins_def)
  moreover have "\<not> sublist ''/var/task/main''
       ([CHR 0x22] @ ''Did not find a file named '' @ quote ''main'' @ [CHR 0x22])"
    by (simp add: quote_def sublist_code prefix_code)
  ultimately show ?thesis by (rule conjI)
qed

text \<open>
  Claim C6, amended. When the import of the module named by the handler identifier
  fails with an error whose message starts with \<open>Cannot find module\<close>, the loader fails
  with kind \<open>FileDoesNotExist\<close> and a message that renders
  \<open>Did not find a file named '<module>'\<close>, where \<open><module>\<close> is the part of the identifier
  before its last dot (the attempted path without the task root). The failure is
  written to the console and posted to \<open>init/error\<close>; these are the only requests of
  the process, so no poll is ever made, and the process exits with status 1 once the
  host has answered the report.
\<close>

theorem missing_module_reported:
  assumes "process_env p ''AWS_LAMBDA_RUNTIME_API'' = Some api"
    and "process_env p ''_HANDLER'' = Some h"
    and "process_env p ''LAMBDA_TASK_ROOT'' = Some root"
    and "fileName = substring h 0 (lastIndexOf h CHR ''.'')"
    and "import_module W (root @ ''/'' @ fileName) = ImportThrows (JError n m st)"
    and "prefix ''Cannot find module'' m"
    and "err = JObj [(''type'', JStr ''FileDoesNotExist''),
                     (''cause'', JStr (''Did not find a file named '' @ quote fileName))]"
    and "rt = ''http://'' @ api @ ''/2018-06-01/runtime/''"
  shows "formatError B err =
           \<lparr>errorType = JStr ''FileDoesNotExist'',
            errorMessage = inspect B (JStr (''Did not find a file named '' @ quote fileName)),
            stackTrace = None\<rparr> \<and>
         sublist fileName (''Did not find a file named '' @ quote fileName) \<and>
         effects (proc_of (main B W ivs p)) =
           effects p @
           [(process_env p trace_var, ConsoleError [err]),
            (process_env p trace_var,
             Fetch (url_href B ''init/error'' rt)
               (Some \<lparr>http_method = ''POST'',
                      body = stringify B (LambdaError_json (formatError B err)),
                      headers = [(''Lambda-Runtime-Function-Error-Type'', JStr ''FileDoesNotExist''),
                                 (''Content-Type'',
                                  JStr ''application/vnd.aws.lambda.error+json'')]\<rparr>))]
           @ exit_line (process_env p trace_var) (init_error_answer W) \<and>
         (\<forall>r. init_error_answer W = Some r \<longrightarrow> (\<exists>q. main B W ivs p = Exited 1 q))"
proof -
  have i: "init B W rt p = throwError B rt err None (init_error_answer W) p"
    unfolding assms(7) assms(4)
    by (rule init_not_found [OF assms(2,3) assms(5) [unfolded assms(4)] assms(6)])
  have nr: "\<forall>x q. init B W (''http://'' @ api @ ''/2018-06-01/runtime/'') p \<noteq> Return x q"
    unfolding assms(8) [symmetric] i by (simp add: throwError_never_returns)
  note m = main_init_failure [OF assms(1) nr, folded assms(8)]
  have f: "formatError B err =
           \<lparr>errorType = JStr ''FileDoesNotExist'',
            errorMessage = inspect B (JStr (''Did not find a file named '' @ quote fileName)),
            stackTrace = None\<rparr>"
    unfolding assms(7) by simp
  have hk: "header_value_ok B (errorType (formatError B err))"
    by (simp add: f)
  have s: "sublist fileName (''Did not find a file named '' @ quote fileName)"
    using sublist_infix [of fileName "''Did not find a file named '' @ [CHR 0x27]" "[CHR 0x27]"]
    by (simp add: quote_def)
  have e: "effects (proc_of (main B W ivs p)) =
           effects p @
           [(process_env p trace_var, ConsoleError [err]),
            (process_env p trace_var,
             Fetch (url_href B ''init/error'' rt)
               (Some \<lparr>http_method = ''POST'',
                      body = stringify B (LambdaError_json (formatError B err)),
                      headers = [(''Lambda-Runtime-Function-Error-Type'', JStr ''FileDoesNotExist''),
                                 (''Content-Type'',
                                  JStr ''application/vnd.aws.lambda.error+json'')]\<rparr>))]
           @ exit_line (process_env p trace_var) (init_error_answer W)"
    unfolding m(1) i throwError_init_effects [OF hk] by (simp add: f)
  have x: "\<forall>r. init_error_answer W = Some r \<longrightarrow> (\<exists>q. main B W ivs p = Exited 1 q)"
    unfolding m(2) i using throwError_exits [OF hk] by auto
  from f s e x show ?thesis by (intro conjI)
qed

theorem missing_module_reported_witness:
  "sublist ''main'' (''Did not find a file named '' @ quote ''main'') \<and>
   (\<exists>q. main sample_builtins
          (sample_startup (ImportThrows (JError ''Error'' ''Cannot find module /var/task/main'' None))
             (Some (answer 202 [] [])))
          [sample_invocation sample_poll TimerFirst None] sample_lambda_proc = Exited 1 q) \<and>
   effects (proc_of (main sample_builtins
      (sample_startup (ImportThrows (JError ''Error'' ''Cannot find module /var/task/main'' None))
         (Some (answer 202 [] [])))
      [sample_invocation sample_poll TimerFirst None] sample_lambda_proc)) =
     [(None, ConsoleError [JObj [(''type'', JStr ''FileDoesNotExist''),
                                 (''cause'', JStr (''Did not find a file named '' @ quote ''main''))]]),
      (None,
       Fetch ''http://127.0.0.1:9001/2018-06-01/runtime/init/error''
         (Some \<lparr>http_method = ''POST'', body = Some ''{}'',
                headers = [(''Lambda-Runtime-Function-Error-Type'', JStr ''FileDoesNotExist''),
                           (''Content-Type'', JStr ''application/vnd.aws.lambda.error+json'')]\<rparr>)),
      (None, ConsoleError [])]"
proof -
  have i: "import_module
             (sample_startup (ImportThrows (JError ''Error'' ''Cannot find module /var/task/main'' None))
                (Some (answer 202 [] [])))
             (''/var/task'' @ ''/'' @ ''main'')
           = ImportThrows (JError ''Error'' ''Cannot find module /var/task/main'' None)"
    by (rule sample_import)
  have p: "prefix ''Cannot find module'' ''Cannot find module /var/task/main''"
    by (simp add: prefix_code)
  note t = missing_module_reported
             [where B = sample_builtins
                and ivs = "[sample_invocation sample_poll TimerFirst None]",
              OF sample_lambda_env(1) sample_lambda_env(2) sample_lambda_env(3)
                 sample_handler_parts(1) i p refl refl]
  have s: "stringify sample_builtins (LambdaError_json e) = Some ''{}''" for e
    by (simp add: LambdaError_json_def sample_builtins_def)
  have e: "exit_line None (Some (answer 202 [] [])) = [(None, ConsoleError [])]"
    by (simp add: exit_line_def ok_answer)
  have a: "sublist ''main'' (''Did not find a file named '' @ quote ''main'')"
    by (rule t [THEN conjunct2, THEN conjunct1])
  have b: "\<exists>q. main sample_builtins
          (sample_startup (ImportThrows (JError ''Error'' ''Cannot find module /var/task/main'' None))
             (Some (answer 202 [] [])))
          [sample_invocation sample_poll TimerFirst None] sample_lambda_proc = Exited 1 q"
    using t [THEN conjunct2, THEN conjunct2, THEN conjunct2] by (simp add: sample_import)
  have c: "effects (proc_of (main sample_builtins
      (sample_startup (ImportThrows (JError ''Error'' ''Cannot find module /var/task/main'' None))
         (Some (answer 202 [] [])))
      [sample_invocation sample_poll TimerFirst None] sample_lambda_proc)) =
     [(None, ConsoleError [JObj [(''type'', JStr ''FileDoesNotExist''),
                                 (''cause'', JStr (''Did not find a file named '' @ quote ''main''))]]),
      (None,
       Fetch ''http://127.0.0.1:9001/2018-06-01/runtime/init/error''
         (Some \<lparr>http_method = ''POST'', body = Some ''{}'',
                headers = [(''Lambda-Runtime-Function-Error-Type'', JStr ''FileDoesNotExist''),
                           (''Content-Type'', JStr ''application/vnd.aws.lambda.error+json'')]\<rparr>)),
      (None, ConsoleError [])]"
    using t [THEN conjunct2, THEN conjunct2, THEN conjunct1]
    by (simp add: sample_import sample_lambda_env s e) (simp add: sample_builtins_def)
  from a b c show ?thesis by (intro conjI)
qed

end
